theory Spec2Isabelle
  imports Main "HOL-Library.Sublist"
begin

section \<open>Cellars.me: the catalog and inventory storage layer\<close>

text \<open>
  The development embeds the storage class of \<^verbatim>\<open>server/storage.ts\<close>
  (\<^verbatim>\<open>DatabaseStorage\<close>) and the schema of \<^verbatim>\<open>shared/schema.ts\<close>. The repository
  holds several versions of the class; every definition below says which version it
  embeds, and some superseded versions are embedded under names of their own, for
  comparison.
  Text is a list of 8-bit code units; letter case is folded on the ASCII letters only.
\<close>

subsection \<open>The shared catalog: rows of table \<^verbatim>\<open>wine_catalog\<close>\<close>

text \<open>
  \<^verbatim>\<open>wineCatalog = pgTable("wine_catalog", { id: serial, name: text notNull,
  category: text notNull, wine: text, subType: text, producer: text, region: text,
  country: text })\<close>. A nullable column is an \<open>option\<close>, \<open>None\<close> being SQL NULL.
\<close>

record WineCatalog =
  cat_id :: int
  cat_name :: string
  cat_category :: string
  cat_wine :: "string option"
  cat_subType :: "string option"
  cat_producer :: "string option"
  cat_region :: "string option"
  cat_country :: "string option"

subsection \<open>The backend's \<^verbatim>\<open>ILIKE\<close> operator\<close>

text \<open>
  \<^verbatim>\<open>ilike(column, pattern)\<close> is PostgreSQL's \<^verbatim>\<open>column ILIKE pattern\<close>: in the pattern
  \<^verbatim>\<open>%\<close> stands for any run of characters, \<^verbatim>\<open>_\<close> for any one character, a backslash
  (the default escape character) makes the character after it literal, and everything
  else stands for itself; the whole subject must be matched. \<^verbatim>\<open>ILIKE\<close> compares
  without regard to letter case. On a NULL column the operator yields NULL, which a
  \<^verbatim>\<open>WHERE\<close> clause treats as not true.
\<close>

definition percent :: char where
  "percent = CHR ''%''"

definition underscore :: char where
  "underscore = CHR ''_''"

definition backslash :: char where
  "backslash = CHR 0x5C"

definition lower_char :: "char \<Rightarrow> char" where
  "lower_char c =
     (let n = (of_char c :: nat) in if 65 \<le> n \<and> n \<le> 90 then char_of (n + 32) else c)"

definition lower :: "string \<Rightarrow> string" where
  "lower s = map lower_char s"

fun like_match :: "string \<Rightarrow> string \<Rightarrow> bool" where
  "like_match [] s = (s = [])"
| "like_match (p # ps) [] = (p = percent \<and> like_match ps [])"
| "like_match (p # ps) (c # cs) =
     (if p = percent then like_match ps (c # cs) \<or> like_match (p # ps) cs
      else if p = underscore then like_match ps cs
      else if p = backslash then
        (case ps of [] \<Rightarrow> False | e # ps' \<Rightarrow> c = e \<and> like_match ps' cs)
      else p = c \<and> like_match ps cs)"

text \<open>
  A pattern whose last character is an unescaped backslash is rejected by the backend
  when the matcher reaches it; \<open>like_match\<close> answers \<open>False\<close> there. The patterns
  built by the search end in \<^verbatim>\<open>%\<close>, so they are never of that kind
  (\<open>searchPattern_escape_ok\<close> below).
\<close>

fun dangling_escape :: "string \<Rightarrow> bool" where
  "dangling_escape [] = False"
| "dangling_escape [c] = (c = backslash)"
| "dangling_escape (c # d # ps) =
     (if c = backslash then dangling_escape ps else dangling_escape (d # ps))"

definition ilike :: "string \<Rightarrow> string \<Rightarrow> bool" where
  "ilike subject pattern = like_match (lower pattern) (lower subject)"

text \<open>The operator on a nullable column: NULL never satisfies the \<^verbatim>\<open>WHERE\<close> clause.\<close>

definition ilike_null :: "string option \<Rightarrow> string \<Rightarrow> bool" where
  "ilike_null col pattern = (case col of None \<Rightarrow> False | Some v \<Rightarrow> ilike v pattern)"

subsection \<open>\<^verbatim>\<open>String.prototype.trim\<close>\<close>

text \<open>
  The white space and line terminators of ECMAScript that fit in one 8-bit code unit:
  tab, line feed, vertical tab, form feed, carriage return, space and no-break space.
\<close>

definition is_whitespace :: "char \<Rightarrow> bool" where
  "is_whitespace c = ((of_char c :: nat) \<in> {9, 10, 11, 12, 13, 32, 160})"

definition trim :: "string \<Rightarrow> string" where
  "trim s = rev (dropWhile is_whitespace (rev (dropWhile is_whitespace s)))"

subsection \<open>Catalog queries\<close>

text \<open>
  \<^verbatim>\<open>getWineCatalog\<close> is \<^verbatim>\<open>db.select().from(wineCatalog)\<close>. \<^verbatim>\<open>searchWineCatalog\<close> is the
  version of \<^verbatim>\<open>server/storage.ts\<close> (the same in all four versions of the class
  there):
  \<^verbatim>\<open>if (!query.trim()) return this.getWineCatalog();
  const searchPattern = `%${query}%`;
  return db.select().from(wineCatalog).where(or(ilike(name, searchPattern),
    ilike(category, searchPattern), ilike(producer, searchPattern),
    ilike(region, searchPattern), ilike(country, searchPattern)))\<close>.
  The catalog functions take the table \<^verbatim>\<open>wine_catalog\<close> as a list of rows in the order
  the backend returns them.
\<close>

definition getWineCatalog :: "WineCatalog list \<Rightarrow> WineCatalog list" where
  "getWineCatalog catalog = catalog"

definition searchPattern :: "string \<Rightarrow> string" where
  "searchPattern query = percent # query @ [percent]"

definition search_where :: "string \<Rightarrow> WineCatalog \<Rightarrow> bool" where
  "search_where pattern e =
     (ilike (cat_name e) pattern \<or> ilike (cat_category e) pattern \<or>
      ilike_null (cat_producer e) pattern \<or> ilike_null (cat_region e) pattern \<or>
      ilike_null (cat_country e) pattern)"

definition searchWineCatalog :: "string \<Rightarrow> WineCatalog list \<Rightarrow> WineCatalog list" where
  "searchWineCatalog query catalog =
     (if trim query = [] then getWineCatalog catalog
      else filter (search_where (searchPattern query)) catalog)"

text \<open>
  The version of the class without user accounts searches six columns (not the
  category) and answers nothing to a query of fewer than three characters:
  \<^verbatim>\<open>if (query.length < 3) return [];
  ... where(or(name ilike p, wine ilike p, subType ilike p, producer ilike p,
  region ilike p, country ilike p))\<close>.
\<close>

definition search_where_six :: "string \<Rightarrow> WineCatalog \<Rightarrow> bool" where
  "search_where_six pattern e =
     (ilike (cat_name e) pattern \<or> ilike_null (cat_wine e) pattern \<or>
      ilike_null (cat_subType e) pattern \<or> ilike_null (cat_producer e) pattern \<or>
      ilike_null (cat_region e) pattern \<or> ilike_null (cat_country e) pattern)"

definition searchWineCatalog_six :: "string \<Rightarrow> WineCatalog list \<Rightarrow> WineCatalog list" where
  "searchWineCatalog_six query catalog =
     (if length query < 3 then []
      else filter (search_where_six (searchPattern query)) catalog)"

subsection \<open>What the specification asks of the search\<close>

text \<open>
  "Case-insensitive substring match": the query, with letter case folded, occurs as a
  contiguous run in the field, with letter case folded. A NULL field contains nothing.
\<close>

definition contains_ci :: "string \<Rightarrow> string \<Rightarrow> bool" where
  "contains_ci field query = sublist (lower query) (lower field)"

definition contains_ci_null :: "string option \<Rightarrow> string \<Rightarrow> bool" where
  "contains_ci_null col query = (case col of None \<Rightarrow> False | Some v \<Rightarrow> contains_ci v query)"

text \<open>
  The seven fields the specification lists: name, category, wine, sub-type, producer,
  region, country.
\<close>

definition seven_field_contains :: "string \<Rightarrow> WineCatalog \<Rightarrow> bool" where
  "seven_field_contains query e =
     (contains_ci (cat_name e) query \<or> contains_ci (cat_category e) query \<or>
      contains_ci_null (cat_wine e) query \<or> contains_ci_null (cat_subType e) query \<or>
      contains_ci_null (cat_producer e) query \<or> contains_ci_null (cat_region e) query \<or>
      contains_ci_null (cat_country e) query)"

text \<open>The five columns that the \<^verbatim>\<open>WHERE\<close> clause of \<^verbatim>\<open>searchWineCatalog\<close> names.\<close>

definition five_field_contains :: "string \<Rightarrow> WineCatalog \<Rightarrow> bool" where
  "five_field_contains query e =
     (contains_ci (cat_name e) query \<or> contains_ci (cat_category e) query \<or>
      contains_ci_null (cat_producer e) query \<or> contains_ci_null (cat_region e) query \<or>
      contains_ci_null (cat_country e) query)"

text \<open>A query without the three characters that \<^verbatim>\<open>ILIKE\<close> reads specially.\<close>

definition meta_free :: "string \<Rightarrow> bool" where
  "meta_free q = (percent \<notin> set q \<and> underscore \<notin> set q \<and> backslash \<notin> set q)"

text \<open>Sample catalog rows used to run the definitions.\<close>

definition chianti_entry :: WineCatalog where
  "chianti_entry = \<lparr>cat_id = 1, cat_name = ''Riserva 2016'', cat_category = ''Red'',
     cat_wine = Some ''Chianti Classico'', cat_subType = Some ''Sangiovese'',
     cat_producer = Some ''Castello'', cat_region = Some ''Tuscany'',
     cat_country = Some ''Italy''\<rparr>"

definition rioja_entry :: WineCatalog where
  "rioja_entry = \<lparr>cat_id = 2, cat_name = ''Rioja Alta'', cat_category = ''Red'',
     cat_wine = None, cat_subType = None, cat_producer = None, cat_region = None,
     cat_country = Some ''Spain''\<rparr>"

section \<open>The catalog import\<close>

subsection \<open>Source rows and inserted values\<close>

text \<open>
  The CSV parser (\<^verbatim>\<open>columns: true, skip_empty_lines: true, trim: true\<close>) hands over one
  object per data row, from header name to cell text: a \<open>csv_record\<close>. \<^verbatim>\<open>record.X\<close> in a
  chain of \<^verbatim>\<open>||\<close> counts when it is neither \<^verbatim>\<open>undefined\<close> nor the empty string:
  \<open>column r X\<close> is then \<open>Some\<close> of it. \<^verbatim>\<open>InsertWineCatalog\<close> is a catalog row without
  its id.
\<close>

record InsertWineCatalog =
  ins_name :: string
  ins_category :: string
  ins_wine :: "string option"
  ins_subType :: "string option"
  ins_producer :: "string option"
  ins_region :: "string option"
  ins_country :: "string option"

type_synonym csv_record = "string \<Rightarrow> string option"

definition column :: "csv_record \<Rightarrow> string \<Rightarrow> string option" where
  "column r header =
     (case r header of None \<Rightarrow> None | Some v \<Rightarrow> if v = [] then None else Some v)"

text \<open>\<^verbatim>\<open>a || b\<close> between two cells, and \<^verbatim>\<open>a || 'text'\<close> with a final default.\<close>

definition or_else :: "string option \<Rightarrow> string option \<Rightarrow> string option" where
  "or_else a b = (case a of Some v \<Rightarrow> Some v | None \<Rightarrow> b)"

definition or_default :: "string option \<Rightarrow> string \<Rightarrow> string" where
  "or_default a d = (case a of Some v \<Rightarrow> v | None \<Rightarrow> d)"

text \<open>
  The file as the import meets it: it does not exist (\<^verbatim>\<open>fs.existsSync\<close> is false), the
  parser emits \<^verbatim>\<open>error\<close> while reading it, or the parser reads these records and
  emits \<^verbatim>\<open>end\<close>.
\<close>

datatype csv_file = Missing | Malformed | Parsed "csv_record list"

text \<open>What makes the promise of the import reject.\<close>

datatype import_error = ParserError | CatalogUnavailable | NoValues | TooManyParameters

text \<open>
  The table with its \<^verbatim>\<open>serial\<close> sequence (an \<^verbatim>\<open>INSERT\<close> gives the new rows the next ids,
  in order) and, as for the inventory backend below, a schedule that says for each
  coming statement whether the backend throws instead of running it.
\<close>

record catalog_db =
  catalog_rows :: "WineCatalog list"
  catalog_seq :: int
  catalog_faults :: "bool list"

fun stored_rows :: "int \<Rightarrow> InsertWineCatalog list \<Rightarrow> WineCatalog list" where
  "stored_rows n [] = []"
| "stored_rows n (e # es) =
     \<lparr>cat_id = n, cat_name = ins_name e, cat_category = ins_category e, cat_wine = ins_wine e,
      cat_subType = ins_subType e, cat_producer = ins_producer e, cat_region = ins_region e,
      cat_country = ins_country e\<rparr> # stored_rows (n + 1) es"

text \<open>\<^verbatim>\<open>db.select({ count: sql`count(*)` }).from(wineCatalog)\<close>.\<close>

definition count_catalog :: "catalog_db \<Rightarrow> (import_error + nat) \<times> catalog_db" where
  "count_catalog db =
     (let db' = db\<lparr>catalog_faults := tl (catalog_faults db)\<rparr> in
      if catalog_faults db \<noteq> [] \<and> hd (catalog_faults db) then (Inl CatalogUnavailable, db')
      else (Inr (length (catalog_rows db)), db'))"

text \<open>
  \<^verbatim>\<open>db.insert(wineCatalog).values(es)\<close>: one \<^verbatim>\<open>INSERT\<close> statement for all the rows, with
  seven bound parameters per row (the id is the column default). A statement carries at
  most 65535 parameters: above that (from 9363 rows on) the backend rejects the statement
  and stores nothing. A list of no rows is refused before anything is sent.
\<close>

definition insert_catalog ::
  "InsertWineCatalog list \<Rightarrow> catalog_db \<Rightarrow> (import_error + unit) \<times> catalog_db" where
  "insert_catalog es db =
     (if es = [] then (Inl NoValues, db)
      else
        (let db' = db\<lparr>catalog_faults := tl (catalog_faults db)\<rparr> in
         if catalog_faults db \<noteq> [] \<and> hd (catalog_faults db) then (Inl CatalogUnavailable, db')
         else if 7 * length es > 65535 then (Inl TooManyParameters, db')
         else (Inr (),
               db'\<lparr>catalog_rows := catalog_rows db @ stored_rows (catalog_seq db) es,
                  catalog_seq := catalog_seq db + int (length es)\<rparr>)))"

subsection \<open>\<^verbatim>\<open>loadWineCatalogFromCSV\<close>, the version that counts first\<close>

text \<open>
  The version of \<^verbatim>\<open>DatabaseStorage\<close> that has no user accounts yet (the storage file
  that also holds \<^verbatim>\<open>MemStorage\<close>):
  \<^verbatim>\<open>wines.push({ name: record.NAME || record.name || '',
    category: record.TYPE || record.category || 'Other',
    wine: record.WINE || record.wine || null,
    subType: record.SUB_TYPE || record.subType || null,
    producer: record.PRODUCER || record.producer || null,
    region: record.REGION || record.region || null,
    country: record.COUNTRY || record.country || null })\<close>
\<close>

definition catalog_values :: "csv_record \<Rightarrow> InsertWineCatalog" where
  "catalog_values r =
     \<lparr>ins_name = or_default (or_else (column r ''NAME'') (column r ''name'')) [],
      ins_category = or_default (or_else (column r ''TYPE'') (column r ''category'')) ''Other'',
      ins_wine = or_else (column r ''WINE'') (column r ''wine''),
      ins_subType = or_else (column r ''SUB_TYPE'') (column r ''subType''),
      ins_producer = or_else (column r ''PRODUCER'') (column r ''producer''),
      ins_region = or_else (column r ''REGION'') (column r ''region''),
      ins_country = or_else (column r ''COUNTRY'') (column r ''country'')\<rparr>"

text \<open>
  \<^verbatim>\<open>if (!fs.existsSync(filePath)) { resolve(); return; }
  db.select({ count }).from(wineCatalog).then(async (result) => {
    const count = Number(result[0]?.count || 0);
    if (count > 0) { resolve(); return; }
    parser.on('readable', ... wines.push(...) ...);
    parser.on('error', (err) => { reject(err); });
    parser.on('end', async () => { try {
      if (wines.length > 0) { await db.insert(wineCatalog).values(wines); }
      resolve(); } catch (error) { reject(error); } });
    createReadStream(filePath).pipe(parser);
  }).catch(error => { reject(error); });\<close>
  A resolved promise is \<open>Inr ()\<close>, a rejected one \<open>Inl\<close> of the error.
\<close>

definition loadWineCatalogFromCSV ::
  "csv_file \<Rightarrow> catalog_db \<Rightarrow> (import_error + unit) \<times> catalog_db" where
  "loadWineCatalogFromCSV file db =
     (if file = Missing then (Inr (), db)
      else
        (case count_catalog db of
           (Inl e, db1) \<Rightarrow> (Inl e, db1)
         | (Inr count, db1) \<Rightarrow>
             if count > 0 then (Inr (), db1)
             else
               (case file of
                  Parsed records \<Rightarrow>
                    (let wines = map catalog_values records in
                     if length wines > 0 then insert_catalog wines db1 else (Inr (), db1))
                | _ \<Rightarrow> (Inl ParserError, db1))))"

section \<open>The inventory store\<close>

subsection \<open>Rows of table \<^verbatim>\<open>wines\<close>\<close>

text \<open>
  \<^verbatim>\<open>interface VintageStock { vintage: number; stock: number }\<close> and
  \<^verbatim>\<open>wines = pgTable("wines", { id: serial primaryKey, userId: varchar notNull,
  name: text notNull, category: text notNull, wine, subType, producer, region,
  country: text, stockLevel: integer default 0, vintageStocks: json default [],
  imageUrl: text, rating: integer, notes: text, createdAt: timestamp defaultNow })\<close>.
  The column \<^verbatim>\<open>id\<close> is the field \<open>wine_id\<close>; a timestamp is a number of
  milliseconds.
\<close>

record VintageStock =
  vintage :: int
  stock :: int

record Wine =
  wine_id :: int
  userId :: string
  name :: string
  category :: string
  wine :: "string option"
  subType :: "string option"
  producer :: "string option"
  region :: "string option"
  country :: "string option"
  stockLevel :: "int option"
  vintageStocks :: "VintageStock list option"
  imageUrl :: "string option"
  rating :: "int option"
  "notes" :: "string option"
  createdAt :: "nat option"

text \<open>
  The query builder (\<^verbatim>\<open>db.select()\<close>, \<^verbatim>\<open>db.update()\<close>, \<^verbatim>\<open>db.delete()\<close>) hands a row back
  as a \<^verbatim>\<open>Wine\<close>, under the property names of the schema. A statement sent as text
  (\<^verbatim>\<open>pool.query(text, params)\<close>, \<^verbatim>\<open>db.execute(sql...)\<close>) hands it back as the driver reads
  it, under the column names: \<^verbatim>\<open>id, user_id, name, category, wine, sub_type, producer,
  region, country, stock_level, vintage_stocks, image_url, rating, notes, created_at\<close>.
  That object is a \<open>WineRow\<close>; it has no property \<^verbatim>\<open>userId\<close>, \<^verbatim>\<open>subType\<close>,
  \<^verbatim>\<open>stockLevel\<close>, \<^verbatim>\<open>vintageStocks\<close>, \<^verbatim>\<open>imageUrl\<close> or \<^verbatim>\<open>createdAt\<close>, and the cast
  \<^verbatim>\<open>as Wine\<close> does not give it one.
\<close>

record WineRow =
  row_id :: int
  row_user_id :: string
  row_name :: string
  row_category :: string
  row_wine :: "string option"
  row_sub_type :: "string option"
  row_producer :: "string option"
  row_region :: "string option"
  row_country :: "string option"
  row_stock_level :: "int option"
  row_vintage_stocks :: "VintageStock list option"
  row_image_url :: "string option"
  row_rating :: "int option"
  row_notes :: "string option"
  row_created_at :: "nat option"

definition raw_row :: "Wine \<Rightarrow> WineRow" where
  "raw_row w =
     \<lparr>row_id = wine_id w, row_user_id = userId w, row_name = name w,
      row_category = category w, row_wine = wine w, row_sub_type = subType w,
      row_producer = producer w, row_region = region w, row_country = country w,
      row_stock_level = stockLevel w, row_vintage_stocks = vintageStocks w,
      row_image_url = imageUrl w, row_rating = rating w, row_notes = notes w,
      row_created_at = createdAt w\<rparr>"

subsection \<open>The update payload \<^verbatim>\<open>Partial<InsertWine>\<close>\<close>

text \<open>
  Every property of the payload may be missing: \<open>Absent\<close> is JavaScript's
  \<^verbatim>\<open>undefined\<close>, \<open>Present v\<close> a property that holds \<open>v\<close>. \<^verbatim>\<open>InsertWine\<close> types
  \<^verbatim>\<open>name\<close> and \<^verbatim>\<open>category\<close> as strings; the other ten properties may also hold
  \<^verbatim>\<open>null\<close>, which is \<open>Present None\<close>.
\<close>

datatype 'a field = Absent | Present 'a

record PartialInsertWine =
  p_name :: "string field"
  p_category :: "string field"
  p_wine :: "string option field"
  p_subType :: "string option field"
  p_producer :: "string option field"
  p_region :: "string option field"
  p_country :: "string option field"
  p_stockLevel :: "int option field"
  p_vintageStocks :: "VintageStock list option field"
  p_imageUrl :: "string option field"
  p_rating :: "int option field"
  p_notes :: "string option field"

subsection \<open>The backend\<close>

text \<open>
  One element of a \<^verbatim>\<open>SET\<close> clause, \<^verbatim>\<open>column = $n\<close>, together with the parameter bound
  to \<^verbatim>\<open>$n\<close>. \<^verbatim>\<open>JSON.stringify\<close> of the vintage list followed by the cast \<^verbatim>\<open>::json\<close>
  stores the list as it is (and \<^verbatim>\<open>null\<close> as the JSON value that reads back as \<^verbatim>\<open>null\<close>).
\<close>

datatype assignment =
    SetName string
  | SetCategory string
  | SetWine "string option"
  | SetSubType "string option"
  | SetProducer "string option"
  | SetRegion "string option"
  | SetCountry "string option"
  | SetStockLevel "int option"
  | SetVintageStocks "VintageStock list option"
  | SetImageUrl "string option"
  | SetRating "int option"
  | SetNotes "string option"

fun assign :: "assignment \<Rightarrow> Wine \<Rightarrow> Wine" where
  "assign (SetName v) w = w\<lparr>name := v\<rparr>"
| "assign (SetCategory v) w = w\<lparr>category := v\<rparr>"
| "assign (SetWine v) w = w\<lparr>wine := v\<rparr>"
| "assign (SetSubType v) w = w\<lparr>subType := v\<rparr>"
| "assign (SetProducer v) w = w\<lparr>producer := v\<rparr>"
| "assign (SetRegion v) w = w\<lparr>region := v\<rparr>"
| "assign (SetCountry v) w = w\<lparr>country := v\<rparr>"
| "assign (SetStockLevel v) w = w\<lparr>stockLevel := v\<rparr>"
| "assign (SetVintageStocks v) w = w\<lparr>vintageStocks := v\<rparr>"
| "assign (SetImageUrl v) w = w\<lparr>imageUrl := v\<rparr>"
| "assign (SetRating v) w = w\<lparr>rating := v\<rparr>"
| "assign (SetNotes v) w = w\<lparr>notes := v\<rparr>"

definition assign_all :: "assignment list \<Rightarrow> Wine \<Rightarrow> Wine" where
  "assign_all sets w = fold assign sets w"

text \<open>
  The statements the storage class sends for table \<^verbatim>\<open>wines\<close>:
  \<^item> \<open>SelectByUser u\<close>: \<^verbatim>\<open>SELECT * FROM wines WHERE user_id = u\<close>;
  \<^item> \<open>SelectByIdUser i u\<close>: \<^verbatim>\<open>SELECT * FROM wines WHERE id = i AND user_id = u\<close>;
  \<^item> \<open>SelectByCategoryUser c u\<close>: \<^verbatim>\<open>... WHERE category = c AND user_id = u\<close>;
  \<^item> \<open>UpdateByIdUser sets i u\<close>:
    \<^verbatim>\<open>UPDATE wines SET sets WHERE id = i AND user_id = u RETURNING *\<close>;
  \<^item> \<open>DeleteByIdUser i u\<close>: \<^verbatim>\<open>DELETE FROM wines WHERE id = i AND user_id = u\<close>;
  \<^item> \<open>InsertRow w\<close>: \<^verbatim>\<open>INSERT INTO wines (id, ...) VALUES (...) RETURNING *\<close>;
  \<^item> \<open>Unbound st\<close>: the text of \<open>st\<close> with its placeholders \<^verbatim>\<open>$1\<close>, \<^verbatim>\<open>$2\<close>, ... and no
    parameter values sent with it.
\<close>

datatype statement =
    SelectByUser string
  | SelectByIdUser int string
  | SelectByCategoryUser string string
  | UpdateByIdUser "assignment list" int string
  | DeleteByIdUser int string
  | InsertRow Wine
  | Unbound statement

datatype db_error = Unavailable | SyntaxError | UniqueViolation | UndefinedParameter

definition owned_row :: "int \<Rightarrow> string \<Rightarrow> Wine \<Rightarrow> bool" where
  "owned_row i u w = (wine_id w = i \<and> userId w = u)"

text \<open>
  What one statement does to the table, and the rows it returns (for \<^verbatim>\<open>DELETE\<close>,
  the rows it removed: their number is \<^verbatim>\<open>rowCount\<close>). The backend runs a statement
  wholly or not at all. An \<^verbatim>\<open>UPDATE\<close> with an empty \<^verbatim>\<open>SET\<close> clause does not parse; an
  \<^verbatim>\<open>INSERT\<close> of an \<^verbatim>\<open>id\<close> that the table holds breaks the primary key; a statement
  whose placeholders have no values is refused (every statement text here has at least
  the two placeholders of its \<^verbatim>\<open>WHERE\<close> clause).
\<close>

fun run :: "statement \<Rightarrow> Wine list \<Rightarrow> db_error + (Wine list \<times> Wine list)" where
  "run (SelectByUser u) tbl = Inr (tbl, filter (\<lambda>w. userId w = u) tbl)"
| "run (SelectByIdUser i u) tbl = Inr (tbl, filter (owned_row i u) tbl)"
| "run (SelectByCategoryUser c u) tbl =
     Inr (tbl, filter (\<lambda>w. category w = c \<and> userId w = u) tbl)"
| "run (UpdateByIdUser sets i u) tbl =
     (if sets = [] then Inl SyntaxError
      else Inr (map (\<lambda>w. if owned_row i u w then assign_all sets w else w) tbl,
                map (assign_all sets) (filter (owned_row i u) tbl)))"
| "run (DeleteByIdUser i u) tbl =
     Inr (filter (\<lambda>w. \<not> owned_row i u w) tbl, filter (owned_row i u) tbl)"
| "run (InsertRow w) tbl =
     (if wine_id w \<in> set (map wine_id tbl) then Inl UniqueViolation
      else Inr (tbl @ [w], [w]))"
| "run (Unbound st) tbl = Inl UndefinedParameter"

text \<open>
  The backend as the storage class sees it: the table, the statements received so far,
  and, since a call to the backend can throw (connection lost, timeout), a schedule
  \<open>faults\<close> that says for each coming statement whether the backend throws instead of
  running it (an empty schedule: the backend answers).
\<close>

record backend =
  wines_table :: "Wine list"
  issued :: "statement list"
  faults :: "bool list"

definition execute :: "statement \<Rightarrow> backend \<Rightarrow> (db_error + Wine list) \<times> backend" where
  "execute st b =
     (let b' = b\<lparr>issued := issued b @ [st], faults := tl (faults b)\<rparr> in
      if faults b \<noteq> [] \<and> hd (faults b) then (Inl Unavailable, b')
      else (case run st (wines_table b) of
              Inl e \<Rightarrow> (Inl e, b')
            | Inr (tbl, rows) \<Rightarrow> (Inr rows, b'\<lparr>wines_table := tbl\<rparr>)))"

text \<open>\<^verbatim>\<open>const [wine] = rows\<close> and \<^verbatim>\<open>rows[0]\<close>: the first row, or \<^verbatim>\<open>undefined\<close>.\<close>

definition first_row :: "'a list \<Rightarrow> 'a option" where
  "first_row rows = (case rows of [] \<Rightarrow> None | w # _ \<Rightarrow> Some w)"

text \<open>
  A statement sent as text: \<^verbatim>\<open>result.rows\<close> holds the rows under their column names.
\<close>

definition query_text :: "statement \<Rightarrow> backend \<Rightarrow> (db_error + WineRow list) \<times> backend" where
  "query_text st b =
     (case execute st b of
        (Inl e, b') \<Rightarrow> (Inl e, b')
      | (Inr rows, b') \<Rightarrow> (Inr (map raw_row rows), b'))"

subsection \<open>Operations of \<^verbatim>\<open>DatabaseStorage\<close>\<close>

text \<open>
  \<^verbatim>\<open>server/storage.ts\<close> holds four versions of the class. \<^verbatim>\<open>getWines\<close>,
  \<^verbatim>\<open>getWineById\<close>, \<^verbatim>\<open>getWinesByCategory\<close> and \<^verbatim>\<open>deleteWine\<close> are the same in all four;
  \<^verbatim>\<open>updateWine\<close> differs from class to class.
  A thrown error is \<open>Inl\<close>; \<^verbatim>\<open>Wine | undefined\<close> is a \<open>Wine option\<close>.
\<close>

definition getWines :: "string \<Rightarrow> backend \<Rightarrow> (db_error + Wine list) \<times> backend" where
  "getWines uid b = execute (SelectByUser uid) b"

definition getWineById :: "int \<Rightarrow> string \<Rightarrow> backend \<Rightarrow> (db_error + Wine option) \<times> backend" where
  "getWineById i uid b =
     (case execute (SelectByIdUser i uid) b of
        (Inl e, b') \<Rightarrow> (Inl e, b')
      | (Inr rows, b') \<Rightarrow> (Inr (first_row rows), b'))"

definition getWinesByCategory ::
  "string \<Rightarrow> string \<Rightarrow> backend \<Rightarrow> (db_error + Wine list) \<times> backend" where
  "getWinesByCategory c uid b = execute (SelectByCategoryUser c uid) b"

text \<open>
  \<^verbatim>\<open>updateWine\<close> of the first and of the third class builds the \<^verbatim>\<open>SET\<close> clause from the
  properties of the payload that are not \<^verbatim>\<open>undefined\<close>, in this order:
  \<^verbatim>\<open>if (wine.name !== undefined) { updates.push(`name = $${paramCount++}`);
  values.push(wine.name); } ...\<close>
\<close>

definition set_of :: "('a \<Rightarrow> assignment) \<Rightarrow> 'a field \<Rightarrow> assignment list" where
  "set_of setter v = (case v of Absent \<Rightarrow> [] | Present x \<Rightarrow> [setter x])"

definition set_clause :: "PartialInsertWine \<Rightarrow> assignment list" where
  "set_clause payload =
     set_of SetName (p_name payload) @
     set_of SetCategory (p_category payload) @
     set_of SetWine (p_wine payload) @
     set_of SetSubType (p_subType payload) @
     set_of SetProducer (p_producer payload) @
     set_of SetRegion (p_region payload) @
     set_of SetCountry (p_country payload) @
     set_of SetStockLevel (p_stockLevel payload) @
     set_of SetVintageStocks (p_vintageStocks payload) @
     set_of SetImageUrl (p_imageUrl payload) @
     set_of SetRating (p_rating payload) @
     set_of SetNotes (p_notes payload)"

text \<open>
  \<^verbatim>\<open>updateWine\<close> is the third class of \<^verbatim>\<open>server/storage.ts\<close>, which sends the text
  with its values through \<^verbatim>\<open>pool.query\<close>:
  \<^verbatim>\<open>if (updateParts.length === 0) {
    const result = await pool.query('SELECT * FROM wines WHERE id = $1 AND user_id = $2',
      [id, userId]);
    return result.rows[0] as Wine; }
  params.push(id, userId);
  const query = `UPDATE wines SET ${updateParts.join(', ')} WHERE id = $${paramIndex}
    AND user_id = $${paramIndex + 1} RETURNING *`;
  const result = await pool.query(query, params);
  return result.rows[0] as Wine;\<close>
  with \<^verbatim>\<open>catch (error) { throw error; }\<close> around it.
\<close>

definition updateWine ::
  "int \<Rightarrow> PartialInsertWine \<Rightarrow> string \<Rightarrow> backend \<Rightarrow> (db_error + WineRow option) \<times> backend"
  where
  "updateWine i payload uid b =
     (let updates = set_clause payload in
      if length updates = 0 then
        (case query_text (SelectByIdUser i uid) b of
           (Inl e, b') \<Rightarrow> (Inl e, b')
         | (Inr rows, b') \<Rightarrow> (Inr (first_row rows), b'))
      else
        (case query_text (UpdateByIdUser updates i uid) b of
           (Inl e, b') \<Rightarrow> (Inl e, b')
         | (Inr rows, b') \<Rightarrow> (Inr (first_row rows), b')))"

text \<open>
  The first class of the file builds the same text and values and sends them with
  \<^verbatim>\<open>db.execute(sql.raw(query, values))\<close> (and
  \<^verbatim>\<open>db.execute(sql.raw(`SELECT * FROM wines WHERE id = $1 AND user_id = $2`, [id, userId]))\<close>
  for the empty payload). \<^verbatim>\<open>sql.raw\<close> takes the text alone: the second argument is
  dropped and the statement reaches the backend with no value for its placeholders.
\<close>

definition updateWine_sql_raw ::
  "int \<Rightarrow> PartialInsertWine \<Rightarrow> string \<Rightarrow> backend \<Rightarrow> (db_error + WineRow option) \<times> backend"
  where
  "updateWine_sql_raw i payload uid b =
     (let updates = set_clause payload in
      if length updates = 0 then
        (case query_text (Unbound (SelectByIdUser i uid)) b of
           (Inl e, b') \<Rightarrow> (Inl e, b')
         | (Inr rows, b') \<Rightarrow> (Inr (first_row rows), b'))
      else
        (case query_text (Unbound (UpdateByIdUser updates i uid)) b of
           (Inl e, b') \<Rightarrow> (Inl e, b')
         | (Inr rows, b') \<Rightarrow> (Inr (first_row rows), b')))"

text \<open>
  \<^verbatim>\<open>result = db.delete(wines).where(and(eq(id), eq(userId)));
  return (result.rowCount || 0) > 0;\<close>
\<close>

definition deleteWine :: "int \<Rightarrow> string \<Rightarrow> backend \<Rightarrow> (db_error + bool) \<times> backend" where
  "deleteWine i uid b =
     (case execute (DeleteByIdUser i uid) b of
        (Inl e, b') \<Rightarrow> (Inl e, b')
      | (Inr rows, b') \<Rightarrow> (Inr (length rows > 0), b'))"

subsection \<open>\<^verbatim>\<open>updateWine\<close>, the version that deletes and inserts\<close>

text \<open>
  Fourth class of \<^verbatim>\<open>server/storage.ts\<close>: it reads the current row, deletes it and
  inserts \<^verbatim>\<open>updatedWineData\<close> under the same id (\<^verbatim>\<open>db.execute(sql`INSERT ... RETURNING *`)\<close>,
  \<^verbatim>\<open>return result.rows[0] as Wine\<close>).
  \<^verbatim>\<open>name: wine.name ?? currentWine.name, category: wine.category ?? currentWine.category,
  wine: wine.wine !== undefined ? wine.wine : currentWine.wine, ... (the same for subType,
  producer, region, country, imageUrl, rating, notes),
  stockLevel: wine.stockLevel ?? currentWine.stockLevel,
  vintageStocks: wine.vintageStocks ?? currentWine.vintageStocks,
  userId: userId, createdAt: currentWine.createdAt\<close>.
  \<^verbatim>\<open>a ?? b\<close> is \<^verbatim>\<open>b\<close> when \<^verbatim>\<open>a\<close> is \<^verbatim>\<open>undefined\<close> or \<^verbatim>\<open>null\<close> (\<open>nullish\<close>); on
  \<^verbatim>\<open>name\<close> and \<^verbatim>\<open>category\<close>, which are never \<^verbatim>\<open>null\<close>, it is the test for
  \<^verbatim>\<open>undefined\<close> (\<open>defined_or\<close>).
\<close>

definition defined_or :: "'a field \<Rightarrow> 'a \<Rightarrow> 'a" where
  "defined_or v stored = (case v of Absent \<Rightarrow> stored | Present x \<Rightarrow> x)"

definition nullish :: "'a option field \<Rightarrow> 'a option \<Rightarrow> 'a option" where
  "nullish v stored = (case v of Present (Some x) \<Rightarrow> Some x | _ \<Rightarrow> stored)"

definition updatedWineData :: "int \<Rightarrow> PartialInsertWine \<Rightarrow> string \<Rightarrow> Wine \<Rightarrow> Wine" where
  "updatedWineData i payload uid currentWine =
     \<lparr>wine_id = i,
      userId = uid,
      name = defined_or (p_name payload) (name currentWine),
      category = defined_or (p_category payload) (category currentWine),
      wine = defined_or (p_wine payload) (wine currentWine),
      subType = defined_or (p_subType payload) (subType currentWine),
      producer = defined_or (p_producer payload) (producer currentWine),
      region = defined_or (p_region payload) (region currentWine),
      country = defined_or (p_country payload) (country currentWine),
      stockLevel = nullish (p_stockLevel payload) (stockLevel currentWine),
      vintageStocks = nullish (p_vintageStocks payload) (vintageStocks currentWine),
      imageUrl = defined_or (p_imageUrl payload) (imageUrl currentWine),
      rating = defined_or (p_rating payload) (rating currentWine),
      notes = defined_or (p_notes payload) (notes currentWine),
      createdAt = createdAt currentWine\<rparr>"

definition updateWine_reinsert ::
  "int \<Rightarrow> PartialInsertWine \<Rightarrow> string \<Rightarrow> backend \<Rightarrow> (db_error + WineRow option) \<times> backend"
  where
  "updateWine_reinsert i payload uid b =
     (case execute (SelectByIdUser i uid) b of
        (Inl e, b1) \<Rightarrow> (Inl e, b1)
      | (Inr rows, b1) \<Rightarrow>
          (case first_row rows of
             None \<Rightarrow> (Inr None, b1)
           | Some currentWine \<Rightarrow>
               (case execute (DeleteByIdUser i uid) b1 of
                  (Inl e, b2) \<Rightarrow> (Inl e, b2)
                | (Inr deleted, b2) \<Rightarrow>
                    (case query_text (InsertRow (updatedWineData i payload uid currentWine)) b2 of
                       (Inl e, b3) \<Rightarrow> (Inl e, b3)
                     | (Inr inserted, b3) \<Rightarrow> (Inr (first_row inserted), b3)))))"

subsection \<open>What the specification asks of an update\<close>

text \<open>
  "A field absent from the update payload must leave the stored value unchanged; a field
  present with an explicit empty/zero value must overwrite the stored value with that
  value": \<open>pick\<close> is that rule for one field, \<open>merge\<close> applies it to the twelve fields
  of the payload and leaves \<^verbatim>\<open>id\<close>, \<^verbatim>\<open>userId\<close> and \<^verbatim>\<open>createdAt\<close> alone.
\<close>

fun pick :: "'a field \<Rightarrow> 'a \<Rightarrow> 'a" where
  "pick Absent stored = stored"
| "pick (Present v) stored = v"

definition merge :: "PartialInsertWine \<Rightarrow> Wine \<Rightarrow> Wine" where
  "merge payload w = w\<lparr>
     name := pick (p_name payload) (name w),
     category := pick (p_category payload) (category w),
     wine := pick (p_wine payload) (wine w),
     subType := pick (p_subType payload) (subType w),
     producer := pick (p_producer payload) (producer w),
     region := pick (p_region payload) (region w),
     country := pick (p_country payload) (country w),
     stockLevel := pick (p_stockLevel payload) (stockLevel w),
     vintageStocks := pick (p_vintageStocks payload) (vintageStocks w),
     imageUrl := pick (p_imageUrl payload) (imageUrl w),
     rating := pick (p_rating payload) (rating w),
     notes := pick (p_notes payload) (notes w)\<rparr>"

text \<open>The payload \<^verbatim>\<open>{}\<close>.\<close>

definition empty_payload :: PartialInsertWine where
  "empty_payload = \<lparr>p_name = Absent, p_category = Absent, p_wine = Absent, p_subType = Absent,
     p_producer = Absent, p_region = Absent, p_country = Absent, p_stockLevel = Absent,
     p_vintageStocks = Absent, p_imageUrl = Absent, p_rating = Absent, p_notes = Absent\<rparr>"

text \<open>The backend runs the next statement (it does not throw).\<close>

definition answers :: "backend \<Rightarrow> bool" where
  "answers b = (faults b = [] \<or> \<not> hd (faults b))"

text \<open>\<^verbatim>\<open>id: serial("id").primaryKey()\<close>: no two rows of the table share an id.\<close>

definition primary_key :: "Wine list \<Rightarrow> bool" where
  "primary_key tbl = distinct (map wine_id tbl)"

text \<open>The one statement that a call of \<^verbatim>\<open>updateWine\<close> sends.\<close>

definition update_statement :: "int \<Rightarrow> PartialInsertWine \<Rightarrow> string \<Rightarrow> statement" where
  "update_statement i payload uid =
     (if set_clause payload = [] then SelectByIdUser i uid
      else UpdateByIdUser (set_clause payload) i uid)"

text \<open>Sample rows, a backend and payloads used to run the definitions.\<close>

definition barolo :: Wine where
  "barolo = \<lparr>wine_id = 1, userId = ''u1'', name = ''Barolo'', category = ''Red'',
     wine = Some ''Nebbiolo'', subType = None, producer = None, region = Some ''Piedmont'',
     country = Some ''Italy'', stockLevel = Some 2,
     vintageStocks = Some [\<lparr>vintage = 2018, stock = 2\<rparr>], imageUrl = None,
     rating = Some 3, notes = Some ''cellar'', createdAt = Some 1700000000000\<rparr>"

definition riesling :: Wine where
  "riesling = \<lparr>wine_id = 2, userId = ''u2'', name = ''Riesling'', category = ''White'',
     wine = None, subType = None, producer = None, region = None,
     country = None, stockLevel = Some 1, vintageStocks = Some [], imageUrl = None,
     rating = None, notes = None, createdAt = Some 1700000000500\<rparr>"

definition cellar :: backend where
  "cellar = \<lparr>wines_table = [barolo, riesling], issued = [], faults = []\<rparr>"

definition falsy_payload :: PartialInsertWine where
  "falsy_payload = empty_payload\<lparr>p_name := Present [], p_stockLevel := Present (Some 0),
     p_notes := Present None\<rparr>"

definition rating_payload :: PartialInsertWine where
  "rating_payload = empty_payload\<lparr>p_rating := Present (Some 5)\<rparr>"

subsection \<open>What the specification asks of the import\<close>

text \<open>
  The number of rows a call adds to the catalog (the function itself returns nothing),
  and a cell that is "absent or empty".
\<close>

definition imported :: "csv_file \<Rightarrow> catalog_db \<Rightarrow> nat" where
  "imported file db =
     length (catalog_rows (snd (loadWineCatalogFromCSV file db))) - length (catalog_rows db)"

text \<open>The backend runs the next \<open>n\<close> statements of a fault schedule.\<close>

definition answers_next :: "nat \<Rightarrow> bool list \<Rightarrow> bool" where
  "answers_next n fs = (True \<notin> set (take n fs))"


text \<open>Sample source rows and catalogs used to run the definitions.\<close>

definition csv_rioja :: csv_record where
  "csv_rioja = map_of [(''NAME'', ''Rioja Alta''), (''TYPE'', []), (''COUNTRY'', ''Spain'')]"

definition csv_chianti :: csv_record where
  "csv_chianti = map_of [(''NAME'', ''Riserva 2016''), (''CATEGORY'', ''Red''),
     (''TYPE'', ''Red''), (''WINE'', ''Chianti Classico'')]"

definition edited_catalog :: catalog_db where
  "edited_catalog = \<lparr>catalog_rows = [rioja_entry\<lparr>cat_region := Some ''La Rioja''\<rparr>],
     catalog_seq = 3, catalog_faults = []\<rparr>"

definition empty_catalog :: catalog_db where
  "empty_catalog = \<lparr>catalog_rows = [], catalog_seq = 1, catalog_faults = []\<rparr>"

section \<open>Properties of the catalog search\<close>

subsection \<open>Blank queries\<close>

lemma trim_empty_iff: "trim q = [] \<longleftrightarrow> (\<forall>c\<in>set q. is_whitespace c)"
proof
  assume "trim q = []"
  then have all: "\<forall>c\<in>set (dropWhile is_whitespace q). is_whitespace c"
    by (simp add: trim_def)
  have "dropWhile is_whitespace q = []"
  proof (rule ccontr)
    assume ne: "dropWhile is_whitespace q \<noteq> []"
    then have "\<not> is_whitespace (hd (dropWhile is_whitespace q))"
      by (rule hd_dropWhile)
    moreover from ne have "hd (dropWhile is_whitespace q) \<in> set (dropWhile is_whitespace q)"
      by simp
    ultimately show False using all by blast
  qed
  then show "\<forall>c\<in>set q. is_whitespace c" by simp
next
  assume "\<forall>c\<in>set q. is_whitespace c"
  then have "dropWhile is_whitespace q = []" by simp
  then show "trim q = []" by (simp add: trim_def del: dropWhile_eq_Nil_conv)
qed

text \<open>
  Claim C7. For every query that is empty or consists only of white space,
  \<^verbatim>\<open>searchWineCatalog\<close> returns exactly the sequence of entries that \<^verbatim>\<open>getWineCatalog\<close>
  returns, the whole catalog.
\<close>

theorem searchWineCatalog_blank_is_listAll:
  assumes "\<forall>c\<in>set query. is_whitespace c"
  shows "searchWineCatalog query catalog = getWineCatalog catalog \<and>
         getWineCatalog catalog = catalog"
  using assms by (simp add: searchWineCatalog_def trim_empty_iff getWineCatalog_def)

theorem searchWineCatalog_blank_is_listAll_witness:
  "is_whitespace (CHR '' '') \<and> is_whitespace (CHR 0x09) \<and>
   searchWineCatalog [CHR '' '', CHR 0x09] [chianti_entry, rioja_entry]
     = getWineCatalog [chianti_entry, rioja_entry] \<and>
   getWineCatalog [chianti_entry, rioja_entry] = [chianti_entry, rioja_entry]"
proof -
  have h: "\<forall>c\<in>set [CHR '' '', CHR 0x09]. is_whitespace c"
    by (simp add: is_whitespace_def)
  show ?thesis
    using h searchWineCatalog_blank_is_listAll [OF h, of "[chianti_entry, rioja_entry]"]
    by simp
qed

subsection \<open>\<^verbatim>\<open>ILIKE\<close> against \<^verbatim>\<open>%query%\<close>\<close>

lemma like_percent_Nil: "like_match [percent] s"
  by (induction s) auto

lemma like_percent_iff:
  "like_match (percent # ps) s \<longleftrightarrow> (\<exists>a b. s = a @ b \<and> like_match ps b)"
proof (induction s)
  case Nil
  then show ?case by (cases ps) auto
next
  case (Cons c cs)
  show ?case
  proof
    assume "like_match (percent # ps) (c # cs)"
    then consider "like_match ps (c # cs)" | "like_match (percent # ps) cs" by auto
    then show "\<exists>a b. c # cs = a @ b \<and> like_match ps b"
    proof cases
      case 1
      then show ?thesis by (intro exI[of _ "[]"] exI[of _ "c # cs"]) simp
    next
      case 2
      with Cons obtain a b where "cs = a @ b" "like_match ps b" by auto
      then show ?thesis by (intro exI[of _ "c # a"] exI[of _ b]) simp
    qed
  next
    assume "\<exists>a b. c # cs = a @ b \<and> like_match ps b"
    then obtain a b where ab: "c # cs = a @ b" "like_match ps b" by auto
    show "like_match (percent # ps) (c # cs)"
    proof (cases a)
      case Nil
      with ab have "like_match ps (c # cs)" by simp
      then show ?thesis by simp
    next
      case (Cons a' as)
      with ab have "cs = as @ b" by simp
      with ab Cons.IH have "like_match (percent # ps) cs" by auto
      then show ?thesis by simp
    qed
  qed
qed

lemma like_literal_iff:
  "meta_free q \<Longrightarrow> like_match (q @ ps) s \<longleftrightarrow> (\<exists>t. s = q @ t \<and> like_match ps t)"
proof (induction q arbitrary: s)
  case Nil
  then show ?case by simp
next
  case (Cons x q)
  then have x: "x \<noteq> percent" "x \<noteq> underscore" "x \<noteq> backslash" and q: "meta_free q"
    by (auto simp: meta_free_def)
  show ?case
  proof (cases s)
    case Nil
    with x show ?thesis by simp
  next
    case (Cons c cs)
    with x Cons.IH[OF q, of cs] show ?thesis by auto
  qed
qed

lemma like_searchPattern:
  assumes "meta_free q"
  shows "like_match (searchPattern q) s \<longleftrightarrow> sublist q s"
proof -
  have "like_match (searchPattern q) s
      \<longleftrightarrow> (\<exists>a b. s = a @ b \<and> like_match (q @ [percent]) b)"
    unfolding searchPattern_def by (rule like_percent_iff)
  also have "\<dots> \<longleftrightarrow> (\<exists>a b. s = a @ b \<and> (\<exists>t. b = q @ t))"
    using like_literal_iff[OF assms, of "[percent]"] like_percent_Nil by simp
  also have "\<dots> \<longleftrightarrow> sublist q s"
    unfolding sublist_def by auto
  finally show ?thesis .
qed

lemma lower_char_fixed:
  assumes "(of_char d :: nat) < 65 \<or> (90 < (of_char d :: nat) \<and> (of_char d :: nat) < 97)"
  shows "lower_char c = d \<longleftrightarrow> c = d"
proof (cases "65 \<le> (of_char c :: nat) \<and> (of_char c :: nat) \<le> 90")
  case True
  then have "(of_char (lower_char c) :: nat) = of_char c + 32"
    by (simp add: lower_char_def Let_def)
  with True assms have "lower_char c \<noteq> d" "c \<noteq> d" by auto
  then show ?thesis by simp
next
  case False
  then have "lower_char c = c" by (auto simp: lower_char_def Let_def)
  then show ?thesis by simp
qed

lemma lower_char_meta:
  "lower_char c = percent \<longleftrightarrow> c = percent"
  "lower_char c = underscore \<longleftrightarrow> c = underscore"
  "lower_char c = backslash \<longleftrightarrow> c = backslash"
  by (rule lower_char_fixed; simp add: percent_def underscore_def backslash_def)+

lemma meta_in_lower:
  "percent \<in> set (lower q) \<longleftrightarrow> percent \<in> set q"
  "underscore \<in> set (lower q) \<longleftrightarrow> underscore \<in> set q"
  "backslash \<in> set (lower q) \<longleftrightarrow> backslash \<in> set q"
  using lower_char_meta by (auto simp: lower_def image_iff) metis+

lemma meta_free_lower: "meta_free (lower q) = meta_free q"
  by (simp add: meta_free_def meta_in_lower)

lemma searchPattern_lower: "lower (searchPattern q) = searchPattern (lower q)"
  using lower_char_meta(1)[of percent] by (simp add: searchPattern_def lower_def)

lemma searchPattern_escape_ok: "\<not> dangling_escape (searchPattern q)"
proof -
  have "\<not> dangling_escape (p @ [percent])" for p
    by (induction p rule: dangling_escape.induct) (auto simp: percent_def backslash_def)
  from this[of "percent # q"] show ?thesis by (simp add: searchPattern_def)
qed

lemma ilike_searchPattern:
  "meta_free q \<Longrightarrow> ilike s (searchPattern q) = contains_ci s q"
  by (simp add: ilike_def contains_ci_def searchPattern_lower like_searchPattern meta_free_lower)

lemma ilike_null_searchPattern:
  "meta_free q \<Longrightarrow> ilike_null col (searchPattern q) = contains_ci_null col q"
  by (simp add: ilike_null_def contains_ci_null_def ilike_searchPattern split: option.splits)

lemma search_where_meta_free:
  "meta_free q \<Longrightarrow> search_where (searchPattern q) e = five_field_contains q e"
  by (simp add: search_where_def five_field_contains_def ilike_searchPattern
      ilike_null_searchPattern)

subsection \<open>Which fields are searched\<close>

text \<open>
  Claim C6, as stated, asks that an entry is returned if and only if one of the seven
  fields name, category, wine, sub-type, producer, region, country contains the query.
  The \<^verbatim>\<open>WHERE\<close> clause names five columns: an entry whose \<^verbatim>\<open>wine\<close> column alone
  contains the query is not returned.
\<close>

theorem searchWineCatalog_seven_fields_counterexample:
  "chianti_entry \<in> set [chianti_entry, rioja_entry] \<and>
   seven_field_contains ''chianti'' chianti_entry \<and>
   chianti_entry \<notin> set (searchWineCatalog ''chianti'' [chianti_entry, rioja_entry])"
  by code_simp

text \<open>
  Claim C6, amended. For every query that is not blank and holds none of the characters
  \<^verbatim>\<open>%\<close>, \<^verbatim>\<open>_\<close> and backslash, \<^verbatim>\<open>searchWineCatalog\<close> returns, in catalog order, exactly
  the entries of which at least one of the five fields name, category, producer, region,
  country contains the query as a substring without regard to letter case.
\<close>

theorem searchWineCatalog_five_fields:
  assumes "trim query \<noteq> []" and "meta_free query"
  shows "searchWineCatalog query catalog = filter (five_field_contains query) catalog \<and>
         (e \<in> set (searchWineCatalog query catalog)
            \<longleftrightarrow> e \<in> set catalog \<and> five_field_contains query e)"
proof -
  have "search_where (searchPattern query) = five_field_contains query"
    using assms(2) by (auto simp: search_where_meta_free)
  with assms(1) have "searchWineCatalog query catalog = filter (five_field_contains query) catalog"
    by (simp add: searchWineCatalog_def)
  then show ?thesis by simp
qed

theorem searchWineCatalog_five_fields_witness:
  "trim ''tALy'' \<noteq> [] \<and> meta_free ''tALy'' \<and>
   searchWineCatalog ''tALy'' [rioja_entry, chianti_entry] = [chianti_entry] \<and>
   five_field_contains ''tALy'' chianti_entry \<and> \<not> five_field_contains ''tALy'' rioja_entry"
proof -
  have h1: "trim ''tALy'' \<noteq> []" by code_simp
  have h2: "meta_free ''tALy''" by code_simp
  have c: "five_field_contains ''tALy'' chianti_entry" by code_simp
  have r: "\<not> five_field_contains ''tALy'' rioja_entry" by code_simp
  show ?thesis
    using h1 h2 c r
      searchWineCatalog_five_fields [OF h1 h2, of "[rioja_entry, chianti_entry]" chianti_entry]
    by simp
qed

text \<open>
  The six-column version finds the entry by its wine, does not find an entry by its
  category, and returns nothing for the empty query.
\<close>

lemma searchWineCatalog_six_examples:
  "searchWineCatalog_six ''chianti'' [chianti_entry, rioja_entry] = [chianti_entry]"
  "searchWineCatalog_six ''red'' [chianti_entry, rioja_entry] = []"
  "searchWineCatalog ''red'' [chianti_entry, rioja_entry] = [chianti_entry, rioja_entry]"
  "searchWineCatalog_six [] [chianti_entry, rioja_entry] = []"
  by code_simp+

subsection \<open>The query is not escaped\<close>

text \<open>
  Claim C10, as stated, says that for a query with neither \<^verbatim>\<open>%\<close> nor \<^verbatim>\<open>_\<close> the match is
  literal substring containment. The backslash is \<^verbatim>\<open>ILIKE\<close>'s escape character and is
  not escaped either: the query \<^verbatim>\<open>o\j\<close> holds neither \<^verbatim>\<open>%\<close> nor \<^verbatim>\<open>_\<close>, no field of the
  Rioja entry contains it, and the entry matches (the pattern \<^verbatim>\<open>%o\j%\<close> asks for
  \<^verbatim>\<open>oj\<close>).
\<close>

theorem searchWineCatalog_backslash_counterexample:
  "percent \<notin> set [CHR ''o'', backslash, CHR ''j''] \<and>
   underscore \<notin> set [CHR ''o'', backslash, CHR ''j''] \<and>
   \<not> seven_field_contains [CHR ''o'', backslash, CHR ''j''] rioja_entry \<and>
   \<not> five_field_contains [CHR ''o'', backslash, CHR ''j''] rioja_entry \<and>
   search_where (searchPattern [CHR ''o'', backslash, CHR ''j'']) rioja_entry \<and>
   searchWineCatalog [CHR ''o'', backslash, CHR ''j''] [rioja_entry] = [rioja_entry]"
  by code_simp

text \<open>
  Claim C10, amended. \<^verbatim>\<open>searchWineCatalog\<close> puts the raw query between two \<^verbatim>\<open>%\<close>
  characters without escaping. There are queries with \<^verbatim>\<open>_\<close> and with \<^verbatim>\<open>%\<close> whose result
  differs from literal substring matching: \<^verbatim>\<open>r_o\<close> and \<^verbatim>\<open>r%a\<close> return the Rioja entry,
  none of whose fields contains them. For every query that holds none of \<^verbatim>\<open>%\<close>, \<^verbatim>\<open>_\<close>
  and backslash, the \<^verbatim>\<open>WHERE\<close> clause holds of an entry exactly when one of the
  searched fields contains the query as a substring, without regard to letter case.
\<close>

theorem searchWineCatalog_unescaped_pattern:
  "searchPattern query = percent # query @ [percent] \<and>
   (underscore \<in> set ''r_o'' \<and> rioja_entry \<in> set (searchWineCatalog ''r_o'' [rioja_entry])
     \<and> \<not> five_field_contains ''r_o'' rioja_entry) \<and>
   (percent \<in> set ''r%a'' \<and> rioja_entry \<in> set (searchWineCatalog ''r%a'' [rioja_entry])
     \<and> \<not> five_field_contains ''r%a'' rioja_entry) \<and>
   (meta_free query \<longrightarrow>
      search_where (searchPattern query) e = five_field_contains query e)"
proof -
  have 1: "searchPattern query = percent # query @ [percent]"
    by (simp add: searchPattern_def)
  have 2: "underscore \<in> set ''r_o'' \<and> rioja_entry \<in> set (searchWineCatalog ''r_o'' [rioja_entry])
     \<and> \<not> five_field_contains ''r_o'' rioja_entry"
    by code_simp
  have 3: "percent \<in> set ''r%a'' \<and> rioja_entry \<in> set (searchWineCatalog ''r%a'' [rioja_entry])
     \<and> \<not> five_field_contains ''r%a'' rioja_entry"
    by code_simp
  have 4: "meta_free query \<longrightarrow>
      search_where (searchPattern query) e = five_field_contains query e"
    by (simp add: search_where_meta_free)
  from 1 2 3 4 show ?thesis by blast
qed

theorem searchWineCatalog_unescaped_pattern_witness:
  "meta_free ''rioja'' \<and> search_where (searchPattern ''rioja'') rioja_entry \<and>
   five_field_contains ''rioja'' rioja_entry"
proof -
  have h: "meta_free ''rioja''" by code_simp
  have c: "five_field_contains ''rioja'' rioja_entry" by code_simp
  show ?thesis
    using h c searchWineCatalog_unescaped_pattern [of "''rioja''" rioja_entry] by blast
qed

section \<open>Properties of the catalog import\<close>




lemma answers_next_1: "answers_next (Suc 0) fs \<longleftrightarrow> \<not> (fs \<noteq> [] \<and> hd fs)"
  by (cases fs) (simp_all add: answers_next_def)


lemma load_nonempty:
  assumes "catalog_rows db \<noteq> []"
  shows "snd (loadWineCatalogFromCSV file db)
           = (if file = Missing then db else db\<lparr>catalog_faults := tl (catalog_faults db)\<rparr>)"
    and "answers_next 1 (catalog_faults db) \<Longrightarrow> fst (loadWineCatalogFromCSV file db) = Inr ()"
  using assms
  by (auto simp: loadWineCatalogFromCSV_def count_catalog_def Let_def answers_next_1)



subsection \<open>Importing twice\<close>

text \<open>
  Claim C3. For every catalog with at least one row, \<^verbatim>\<open>loadWineCatalogFromCSV\<close> skips the
  whole import: it adds no row and leaves the catalog, every existing row with its
  edits and the id sequence, as it is (all that changes is that the backend has answered
  the count), and it resolves when the backend answers the count. A second call after a
  first one therefore changes nothing, and the number of rows is what it was after the
  first call.
\<close>

theorem loadWineCatalogFromCSV_skips_nonempty:
  assumes "catalog_rows db \<noteq> []"
  shows "snd (loadWineCatalogFromCSV file db)
           = (if file = Missing then db else db\<lparr>catalog_faults := tl (catalog_faults db)\<rparr>) \<and>
         catalog_rows (snd (loadWineCatalogFromCSV file db)) = catalog_rows db \<and>
         catalog_seq (snd (loadWineCatalogFromCSV file db)) = catalog_seq db \<and>
         imported file db = 0 \<and>
         (answers_next 1 (catalog_faults db) \<longrightarrow> fst (loadWineCatalogFromCSV file db) = Inr ()) \<and>
         catalog_rows (snd (loadWineCatalogFromCSV file' (snd (loadWineCatalogFromCSV file db))))
           = catalog_rows (snd (loadWineCatalogFromCSV file db)) \<and>
         catalog_seq (snd (loadWineCatalogFromCSV file' (snd (loadWineCatalogFromCSV file db))))
           = catalog_seq (snd (loadWineCatalogFromCSV file db)) \<and>
         length (catalog_rows
             (snd (loadWineCatalogFromCSV file' (snd (loadWineCatalogFromCSV file db)))))
           = length (catalog_rows (snd (loadWineCatalogFromCSV file db)))"
proof -
  have first: "snd (loadWineCatalogFromCSV file db)
           = (if file = Missing then db else db\<lparr>catalog_faults := tl (catalog_faults db)\<rparr>)"
    using assms by (rule load_nonempty(1))
  then have rows: "catalog_rows (snd (loadWineCatalogFromCSV file db)) = catalog_rows db"
    and seq: "catalog_seq (snd (loadWineCatalogFromCSV file db)) = catalog_seq db"
    by simp_all
  from rows assms have ne: "catalog_rows (snd (loadWineCatalogFromCSV file db)) \<noteq> []"
    by simp
  have second: "snd (loadWineCatalogFromCSV file' (snd (loadWineCatalogFromCSV file db)))
      = (if file' = Missing then snd (loadWineCatalogFromCSV file db)
         else (snd (loadWineCatalogFromCSV file db))
                \<lparr>catalog_faults := tl (catalog_faults (snd (loadWineCatalogFromCSV file db)))\<rparr>)"
    using ne by (rule load_nonempty(1))
  have rows2: "catalog_rows (snd (loadWineCatalogFromCSV file' (snd (loadWineCatalogFromCSV file db))))
           = catalog_rows (snd (loadWineCatalogFromCSV file db))"
    and seq2: "catalog_seq (snd (loadWineCatalogFromCSV file' (snd (loadWineCatalogFromCSV file db))))
           = catalog_seq (snd (loadWineCatalogFromCSV file db))"
    by (simp_all only: second split: if_splits) simp_all
  have ok: "answers_next 1 (catalog_faults db) \<longrightarrow> fst (loadWineCatalogFromCSV file db) = Inr ()"
    using load_nonempty(2) [OF assms] by blast
  have imp: "imported file db = 0"
    by (simp add: imported_def rows)
  from first rows seq imp ok rows2 seq2 show ?thesis by simp
qed


theorem loadWineCatalogFromCSV_skips_nonempty_witness:
  "catalog_rows edited_catalog \<noteq> [] \<and>
   loadWineCatalogFromCSV (Parsed [csv_chianti, csv_rioja]) edited_catalog
     = (Inr (), edited_catalog) \<and>
   imported (Parsed [csv_chianti, csv_rioja]) edited_catalog = 0 \<and>
   length (catalog_rows (snd (loadWineCatalogFromCSV (Parsed [csv_rioja])
      (snd (loadWineCatalogFromCSV (Parsed [csv_chianti, csv_rioja]) edited_catalog))))) = 1"
proof -
  have h: "catalog_rows edited_catalog \<noteq> []" by (simp add: edited_catalog_def)
  have l: "length (catalog_rows edited_catalog) = 1" by (simp add: edited_catalog_def)
  have f: "catalog_faults edited_catalog = []" by (simp add: edited_catalog_def)
  have a: "answers_next 1 (catalog_faults edited_catalog)" by (simp add: f answers_next_def)
  have same: "edited_catalog\<lparr>catalog_faults := tl (catalog_faults edited_catalog)\<rparr> = edited_catalog"
    by (simp add: edited_catalog_def)
  note inst = loadWineCatalogFromCSV_skips_nonempty [OF h, of "Parsed [csv_chianti, csv_rioja]"
        "Parsed [csv_rioja]"]
  from inst a have r: "fst (loadWineCatalogFromCSV (Parsed [csv_chianti, csv_rioja]) edited_catalog) = Inr ()"
    by blast
  from inst have s: "snd (loadWineCatalogFromCSV (Parsed [csv_chianti, csv_rioja]) edited_catalog)
      = edited_catalog"
    by (simp add: same)
  from r s have whole: "loadWineCatalogFromCSV (Parsed [csv_chianti, csv_rioja]) edited_catalog
     = (Inr (), edited_catalog)"
    by (simp add: prod_eq_iff)
  from inst have i: "imported (Parsed [csv_chianti, csv_rioja]) edited_catalog = 0"
    by blast
  from inst have "length (catalog_rows (snd (loadWineCatalogFromCSV (Parsed [csv_rioja])
      (snd (loadWineCatalogFromCSV (Parsed [csv_chianti, csv_rioja]) edited_catalog)))))
      = length (catalog_rows (snd (loadWineCatalogFromCSV (Parsed [csv_chianti, csv_rioja]) edited_catalog)))"
    by blast
  with s l have two: "length (catalog_rows (snd (loadWineCatalogFromCSV (Parsed [csv_rioja])
      (snd (loadWineCatalogFromCSV (Parsed [csv_chianti, csv_rioja]) edited_catalog))))) = 1"
    by simp
  from h whole i two show ?thesis by blast
qed

subsection \<open>Defaults of the imported fields\<close>



text \<open>
  Beyond that size the one \<^verbatim>\<open>INSERT\<close> is rejected and nothing is imported; a file
  that does not parse, and a backend that throws on the count or on the insert, reject
  the promise too.
\<close>

lemma loadWineCatalogFromCSV_too_many_rows:
  assumes "catalog_rows db = []" and "65535 < 7 * length records"
  shows "fst (loadWineCatalogFromCSV (Parsed records) db) \<noteq> Inr ()"
    and "catalog_rows (snd (loadWineCatalogFromCSV (Parsed records) db)) = []"
  using assms
  by (auto simp: loadWineCatalogFromCSV_def count_catalog_def insert_catalog_def Let_def)

lemma loadWineCatalogFromCSV_9363_rows:
  "loadWineCatalogFromCSV (Parsed (replicate 9363 csv_chianti)) empty_catalog
     = (Inl TooManyParameters, empty_catalog)"
  by (simp add: loadWineCatalogFromCSV_def count_catalog_def insert_catalog_def Let_def
      empty_catalog_def)

lemma loadWineCatalogFromCSV_rejects:
  "fst (loadWineCatalogFromCSV Malformed empty_catalog) = Inl ParserError"
  "fst (loadWineCatalogFromCSV (Parsed [csv_chianti]) (empty_catalog\<lparr>catalog_faults := [True]\<rparr>))
     = Inl CatalogUnavailable"
  "fst (loadWineCatalogFromCSV (Parsed [csv_chianti])
     (empty_catalog\<lparr>catalog_faults := [False, True]\<rparr>)) = Inl CatalogUnavailable"
  by (simp_all add: loadWineCatalogFromCSV_def count_catalog_def insert_catalog_def Let_def
      empty_catalog_def)

section \<open>Properties of the inventory store\<close>

subsection \<open>The \<^verbatim>\<open>SET\<close> clause and the backend\<close>

lemma fold_set_of:
  "fold assign (set_of SetName a) w = w\<lparr>name := pick a (name w)\<rparr>"
  "fold assign (set_of SetCategory a) w = w\<lparr>category := pick a (category w)\<rparr>"
  "fold assign (set_of SetWine c) w = w\<lparr>wine := pick c (wine w)\<rparr>"
  "fold assign (set_of SetSubType c) w = w\<lparr>subType := pick c (subType w)\<rparr>"
  "fold assign (set_of SetProducer c) w = w\<lparr>producer := pick c (producer w)\<rparr>"
  "fold assign (set_of SetRegion c) w = w\<lparr>region := pick c (region w)\<rparr>"
  "fold assign (set_of SetCountry c) w = w\<lparr>country := pick c (country w)\<rparr>"
  "fold assign (set_of SetStockLevel d) w = w\<lparr>stockLevel := pick d (stockLevel w)\<rparr>"
  "fold assign (set_of SetVintageStocks e) w = w\<lparr>vintageStocks := pick e (vintageStocks w)\<rparr>"
  "fold assign (set_of SetImageUrl c) w = w\<lparr>imageUrl := pick c (imageUrl w)\<rparr>"
  "fold assign (set_of SetRating d) w = w\<lparr>rating := pick d (rating w)\<rparr>"
  "fold assign (set_of SetNotes c) w = w\<lparr>notes := pick c (notes w)\<rparr>"
  by (simp_all add: set_of_def split: field.splits)

lemma assign_all_set_clause: "assign_all (set_clause payload) w = merge payload w"
  by (simp add: assign_all_def set_clause_def merge_def fold_set_of)

lemma assign_all_set_clause_fun: "assign_all (set_clause payload) = merge payload"
  by (rule ext) (rule assign_all_set_clause)

lemma set_clause_Nil_iff: "set_clause payload = [] \<longleftrightarrow> payload = empty_payload"
  by (cases payload) (auto simp: set_clause_def set_of_def empty_payload_def split: field.splits)

lemma merge_empty: "merge empty_payload w = w"
  by (simp add: merge_def empty_payload_def)

lemma merge_fields:
  "wine_id (merge payload w) = wine_id w"
  "userId (merge payload w) = userId w"
  "createdAt (merge payload w) = createdAt w"
  "name (merge payload w) = pick (p_name payload) (name w)"
  "category (merge payload w) = pick (p_category payload) (category w)"
  "wine (merge payload w) = pick (p_wine payload) (wine w)"
  "subType (merge payload w) = pick (p_subType payload) (subType w)"
  "producer (merge payload w) = pick (p_producer payload) (producer w)"
  "region (merge payload w) = pick (p_region payload) (region w)"
  "country (merge payload w) = pick (p_country payload) (country w)"
  "stockLevel (merge payload w) = pick (p_stockLevel payload) (stockLevel w)"
  "vintageStocks (merge payload w) = pick (p_vintageStocks payload) (vintageStocks w)"
  "imageUrl (merge payload w) = pick (p_imageUrl payload) (imageUrl w)"
  "rating (merge payload w) = pick (p_rating payload) (rating w)"
  "notes (merge payload w) = pick (p_notes payload) (notes w)"
  by (simp_all add: merge_def)

lemma execute_issued: "issued (snd (execute st b)) = issued b @ [st]"
  by (simp add: execute_def Let_def split: sum.splits prod.splits)

lemma execute_fault:
  "\<not> answers b \<Longrightarrow> execute st b = (Inl Unavailable, b\<lparr>issued := issued b @ [st], faults := tl (faults b)\<rparr>)"
  by (simp add: execute_def Let_def answers_def)

lemma execute_answers:
  "answers b \<Longrightarrow> execute st b =
     (case run st (wines_table b) of
        Inl e \<Rightarrow> (Inl e, b\<lparr>issued := issued b @ [st], faults := tl (faults b)\<rparr>)
      | Inr (tbl, rows) \<Rightarrow> (Inr rows, b\<lparr>issued := issued b @ [st], faults := tl (faults b), wines_table := tbl\<rparr>))"
  by (auto simp add: execute_def Let_def answers_def split: sum.splits prod.splits)

lemma execute_error_keeps_table:
  "execute st b = (Inl e, b') \<Longrightarrow> wines_table b' = wines_table b"
  by (auto simp add: execute_def Let_def split: sum.splits prod.splits if_splits)


lemma first_row_None_iff: "first_row rows = None \<longleftrightarrow> rows = []"
  by (simp add: first_row_def split: list.splits)

lemma first_row_map: "first_row (map f rows) = map_option f (first_row rows)"
  by (simp add: first_row_def split: list.splits)

lemma query_text_answers:
  "answers b \<Longrightarrow> query_text st b =
     (case run st (wines_table b) of
        Inl e \<Rightarrow> (Inl e, b\<lparr>issued := issued b @ [st], faults := tl (faults b)\<rparr>)
      | Inr (tbl, rows) \<Rightarrow>
          (Inr (map raw_row rows),
           b\<lparr>issued := issued b @ [st], faults := tl (faults b), wines_table := tbl\<rparr>))"
  by (simp add: query_text_def execute_answers split: sum.splits prod.splits)

lemma query_text_fault:
  "\<not> answers b \<Longrightarrow> query_text st b =
     (Inl Unavailable, b\<lparr>issued := issued b @ [st], faults := tl (faults b)\<rparr>)"
  by (simp add: query_text_def execute_fault)

lemma updateWine_answers:
  assumes "answers b"
  shows "updateWine i payload uid b =
    (Inr (map_option raw_row
       (first_row (map (merge payload) (filter (owned_row i uid) (wines_table b))))),
     b\<lparr>issued := issued b @ [update_statement i payload uid], faults := tl (faults b),
       wines_table := map (\<lambda>w. if owned_row i uid w then merge payload w else w) (wines_table b)\<rparr>)"
proof (cases "set_clause payload = []")
  case True
  then have "payload = empty_payload" by (simp add: set_clause_Nil_iff)
  then have m: "merge payload = (\<lambda>w. w)" by (auto simp: merge_empty)
  show ?thesis
    using True assms
    by (simp add: updateWine_def update_statement_def query_text_answers m first_row_map
        cong: if_cong)
next
  case False
  then show ?thesis
    using assms
    by (simp add: updateWine_def update_statement_def query_text_answers
        assign_all_set_clause assign_all_set_clause_fun Let_def first_row_map
        del: map_map cong: if_cong)
qed

lemma updateWine_fault:
  assumes "\<not> answers b"
  shows "updateWine i payload uid b =
    (Inl Unavailable,
     b\<lparr>issued := issued b @ [update_statement i payload uid], faults := tl (faults b)\<rparr>)"
  using assms by (simp add: updateWine_def update_statement_def query_text_fault Let_def)

text \<open>
  The first class: whatever the payload, the statement has no values for its
  placeholders, the call throws and the table stays as it is.
\<close>

lemma updateWine_sql_raw_throws:
  "fst (updateWine_sql_raw i payload uid b)
     = Inl (if answers b then UndefinedParameter else Unavailable) \<and>
   wines_table (snd (updateWine_sql_raw i payload uid b)) = wines_table b"
  by (cases "answers b")
    (simp_all add: updateWine_sql_raw_def query_text_answers query_text_fault Let_def)

lemma filter_primary_key:
  "primary_key tbl \<Longrightarrow> w \<in> set tbl \<Longrightarrow> filter (owned_row (wine_id w) (userId w)) tbl = [w]"
proof (induction tbl)
  case Nil
  then show ?case by simp
next
  case (Cons x tbl)
  show ?case
  proof (cases "x = w")
    case True
    with Cons.prems have "wine_id w \<notin> set (map wine_id tbl)"
      by (simp add: primary_key_def)
    then have "\<forall>y\<in>set tbl. wine_id y \<noteq> wine_id w"
      by (simp add: image_iff) metis
    then have "filter (owned_row (wine_id w) (userId w)) tbl = []"
      by (simp add: owned_row_def filter_empty_conv)
    moreover have "owned_row (wine_id w) (userId w) w" by (simp add: owned_row_def)
    ultimately show ?thesis using True by simp
  next
    case False
    with Cons.prems have w: "w \<in> set tbl" and pk: "primary_key tbl"
      and "wine_id x \<notin> wine_id ` set tbl"
      by (auto simp: primary_key_def)
    then have "wine_id x \<noteq> wine_id w" by auto
    then have "\<not> owned_row (wine_id w) (userId w) x" by (simp add: owned_row_def)
    with Cons.IH[OF pk w] show ?thesis by simp
  qed
qed

lemma foreign_row_not_owned:
  "primary_key tbl \<Longrightarrow> r \<in> set tbl \<Longrightarrow> userId r \<noteq> uid \<Longrightarrow>
   filter (owned_row (wine_id r) uid) tbl = []"
proof -
  assume pk: "primary_key tbl" and r: "r \<in> set tbl" and u: "userId r \<noteq> uid"
  have "\<not> owned_row (wine_id r) uid w" if "w \<in> set tbl" for w
  proof
    assume o: "owned_row (wine_id r) uid w"
    then have "wine_id w = wine_id r" by (simp add: owned_row_def)
    with pk r that have "w = r"
      by (metis primary_key_def distinct_map inj_on_def)
    with o u show False by (simp add: owned_row_def)
  qed
  then show ?thesis by (simp add: filter_empty_conv)
qed

lemma cellar_facts:
  "primary_key (wines_table cellar)" "barolo \<in> set (wines_table cellar)" "answers cellar"
  "riesling \<in> set (wines_table cellar)"
  by (simp_all add: primary_key_def cellar_def barolo_def riesling_def answers_def)

lemma getWineById_answers:
  "answers b \<Longrightarrow> getWineById i uid b =
     (Inr (first_row (filter (owned_row i uid) (wines_table b))),
      b\<lparr>issued := issued b @ [SelectByIdUser i uid], faults := tl (faults b)\<rparr>)"
  by (simp add: getWineById_def execute_answers)

lemma getWineById_fault:
  "\<not> answers b \<Longrightarrow> getWineById i uid b =
     (Inl Unavailable, b\<lparr>issued := issued b @ [SelectByIdUser i uid], faults := tl (faults b)\<rparr>)"
  by (simp add: getWineById_def execute_fault)

lemma deleteWine_answers:
  "answers b \<Longrightarrow> deleteWine i uid b =
     (Inr (filter (owned_row i uid) (wines_table b) \<noteq> []),
      b\<lparr>issued := issued b @ [DeleteByIdUser i uid], faults := tl (faults b),
        wines_table := filter (\<lambda>w. \<not> owned_row i uid w) (wines_table b)\<rparr>)"
  by (simp add: deleteWine_def execute_answers)

lemma deleteWine_fault:
  "\<not> answers b \<Longrightarrow> deleteWine i uid b =
     (Inl Unavailable, b\<lparr>issued := issued b @ [DeleteByIdUser i uid], faults := tl (faults b)\<rparr>)"
  by (simp add: deleteWine_def execute_fault)

lemma getWines_rows:
  "fst (getWines uid b) = Inr rows \<Longrightarrow> rows = filter (\<lambda>w. userId w = uid) (wines_table b)"
  by (cases "answers b") (auto simp: getWines_def execute_answers execute_fault)

lemma getWinesByCategory_rows:
  "fst (getWinesByCategory c uid b) = Inr rows \<Longrightarrow>
   rows = filter (\<lambda>w. category w = c \<and> userId w = uid) (wines_table b)"
  by (cases "answers b") (auto simp: getWinesByCategory_def execute_answers execute_fault)

lemma other_owners_untouched:
  "filter (\<lambda>w. userId w \<noteq> caller) (wines_table (snd (updateWine i payload caller b)))
     = filter (\<lambda>w. userId w \<noteq> caller) (wines_table b)"
  "filter (\<lambda>w. userId w \<noteq> caller) (wines_table (snd (deleteWine i caller b)))
     = filter (\<lambda>w. userId w \<noteq> caller) (wines_table b)"
proof -
  have m: "filter (\<lambda>w. userId w \<noteq> caller)
             (map (\<lambda>w. if owned_row i caller w then merge payload w else w) tbl)
           = filter (\<lambda>w. userId w \<noteq> caller) tbl" for tbl
    by (induction tbl) (auto simp: owned_row_def merge_fields)
  have d: "filter (\<lambda>w. \<not> owned_row i caller w \<and> userId w \<noteq> caller) tbl
           = filter (\<lambda>w. userId w \<noteq> caller) tbl" for tbl
    by (induction tbl) (auto simp: owned_row_def)
  show "filter (\<lambda>w. userId w \<noteq> caller) (wines_table (snd (updateWine i payload caller b)))
     = filter (\<lambda>w. userId w \<noteq> caller) (wines_table b)"
    by (cases "answers b") (simp_all add: updateWine_answers updateWine_fault m)
  show "filter (\<lambda>w. userId w \<noteq> caller) (wines_table (snd (deleteWine i caller b)))
     = filter (\<lambda>w. userId w \<noteq> caller) (wines_table b)"
    by (cases "answers b") (simp_all add: deleteWine_answers deleteWine_fault d)
qed

subsection \<open>Partial update\<close>

text \<open>
  The third class. For every stored record and every partial payload, when the backend
  answers the call succeeds, leaves every row of another id or owner as it is and turns
  each row of the given id and owner into \<open>merge payload\<close> of it: a field absent from
  the payload keeps its stored value, and a field present in it, also with the value
  empty string, zero or \<^verbatim>\<open>null\<close>, takes exactly that value. The row returned is the
  merged row under its column names.
\<close>

lemma updateWine_merges_present_fields:
  "(answers b \<longrightarrow>
      fst (updateWine i payload uid b)
        = Inr (map_option raw_row
            (first_row (map (merge payload) (filter (owned_row i uid) (wines_table b)))))) \<and>
   (\<forall>r. fst (updateWine i payload uid b) = Inr r \<longrightarrow>
      wines_table (snd (updateWine i payload uid b))
        = map (\<lambda>w. if owned_row i uid w then merge payload w else w) (wines_table b) \<and>
      r = map_option raw_row
            (first_row (map (merge payload) (filter (owned_row i uid) (wines_table b)))))"
proof (cases "answers b")
  case True
  then show ?thesis by (simp add: updateWine_answers)
next
  case False
  then show ?thesis by (simp add: updateWine_fault)
qed

lemma cellar_rows:
  "filter (owned_row 1 ''u1'') (wines_table cellar) = [barolo]"
  "map (\<lambda>w. if owned_row 1 ''u1'' w then merge payload w else w) (wines_table cellar)
     = [merge payload barolo, riesling]"
  "wines_table cellar = [barolo, riesling]"
  "issued cellar = []"
  "faults cellar = []"
  "wine_id barolo = 1"
  "userId barolo = ''u1''"
  by (simp_all add: cellar_def owned_row_def barolo_def riesling_def)

text \<open>
  Claim C1, at the first class of \<^verbatim>\<open>server/storage.ts\<close>. The claim asks that a field
  present in the payload overwrites the stored value. The call
  \<^verbatim>\<open>updateWine(1, { name: "", stockLevel: 0, notes: null }, "u1")\<close> on a table that holds
  record 1 of owner \<^verbatim>\<open>u1\<close> throws, because the statement reaches the backend without its
  parameter values, and the stored name, stock level and notes stay what they were. The
  third class, which sends the same statement with its values, stores the empty name,
  the zero and the \<^verbatim>\<open>null\<close>.
\<close>

theorem updateWine_sql_raw_overwrites_nothing:
  "fst (updateWine_sql_raw 1 falsy_payload ''u1'' cellar) = Inl UndefinedParameter \<and>
   wines_table (snd (updateWine_sql_raw 1 falsy_payload ''u1'' cellar)) = [barolo, riesling] \<and>
   name barolo = ''Barolo'' \<and> stockLevel barolo = Some 2 \<and> notes barolo = Some ''cellar'' \<and>
   wines_table (snd (updateWine 1 falsy_payload ''u1'' cellar))
     = [merge falsy_payload barolo, riesling] \<and>
   name (merge falsy_payload barolo) = [] \<and>
   stockLevel (merge falsy_payload barolo) = Some 0 \<and>
   notes (merge falsy_payload barolo) = None"
proof -
  have raw: "fst (updateWine_sql_raw 1 falsy_payload ''u1'' cellar) = Inl UndefinedParameter"
    "wines_table (snd (updateWine_sql_raw 1 falsy_payload ''u1'' cellar)) = [barolo, riesling]"
    using updateWine_sql_raw_throws [of 1 falsy_payload "''u1''" cellar] cellar_facts(3)
    by (simp_all add: cellar_rows(3))
  have stored: "name barolo = ''Barolo''" "stockLevel barolo = Some 2"
    "notes barolo = Some ''cellar''"
    by (simp_all add: barolo_def)
  have third: "wines_table (snd (updateWine 1 falsy_payload ''u1'' cellar))
     = [merge falsy_payload barolo, riesling]"
    by (simp add: updateWine_answers [OF cellar_facts(3)] cellar_rows(2))
  have fields: "name (merge falsy_payload barolo) = []"
    "stockLevel (merge falsy_payload barolo) = Some 0"
    "notes (merge falsy_payload barolo) = None"
    by (simp_all add: merge_fields falsy_payload_def empty_payload_def)
  from raw stored third fields show ?thesis by blast
qed

subsection \<open>The empty payload\<close>

text \<open>
  The third class. For every existing record, \<^verbatim>\<open>updateWine(id, {}, owner)\<close> succeeds when
  the backend answers, leaves the table as it is, and returns the stored row under its
  column names. For every payload, the result is \<^verbatim>\<open>undefined\<close> exactly when the backend
  answers and no record with that id and owner exists.
\<close>

lemma updateWine_empty_payload_noop:
  "(primary_key (wines_table b) \<and> w \<in> set (wines_table b) \<and> answers b \<longrightarrow>
      updateWine (wine_id w) empty_payload (userId w) b =
        (Inr (Some (raw_row w)),
         b\<lparr>issued := issued b @ [SelectByIdUser (wine_id w) (userId w)],
           faults := tl (faults b)\<rparr>)) \<and>
   (fst (updateWine i payload uid b) = Inr None
      \<longleftrightarrow> answers b \<and> \<not> (\<exists>r\<in>set (wines_table b). owned_row i uid r))"
proof
  show "primary_key (wines_table b) \<and> w \<in> set (wines_table b) \<and> answers b \<longrightarrow>
      updateWine (wine_id w) empty_payload (userId w) b =
        (Inr (Some (raw_row w)),
         b\<lparr>issued := issued b @ [SelectByIdUser (wine_id w) (userId w)],
           faults := tl (faults b)\<rparr>)"
  proof
    assume h: "primary_key (wines_table b) \<and> w \<in> set (wines_table b) \<and> answers b"
    then have f: "filter (owned_row (wine_id w) (userId w)) (wines_table b) = [w]"
      by (simp add: filter_primary_key)
    have e: "set_clause empty_payload = []" by (simp add: set_clause_Nil_iff)
    from h e f show "updateWine (wine_id w) empty_payload (userId w) b =
        (Inr (Some (raw_row w)),
         b\<lparr>issued := issued b @ [SelectByIdUser (wine_id w) (userId w)],
           faults := tl (faults b)\<rparr>)"
      by (simp add: updateWine_def query_text_answers first_row_def)
  qed
  show "fst (updateWine i payload uid b) = Inr None
      \<longleftrightarrow> answers b \<and> \<not> (\<exists>r\<in>set (wines_table b). owned_row i uid r)"
  proof (cases "answers b")
    case True
    show ?thesis
      using True
      by (simp add: updateWine_answers [OF True] first_row_None_iff filter_empty_conv)
  next
    case False
    then show ?thesis by (simp add: updateWine_fault)
  qed
qed

text \<open>
  Claim C5, at the code. The claim asks that \<^verbatim>\<open>updateWine(id, {}, owner)\<close> on an existing
  record succeeds and returns the current record with every field unchanged. On a table
  that holds record 1 of owner \<^verbatim>\<open>u1\<close>, \<^verbatim>\<open>updateWine(1, {}, "u1")\<close> of the first class throws
  (the \<^verbatim>\<open>SELECT\<close> reaches the backend without the values of \<^verbatim>\<open>$1\<close> and \<^verbatim>\<open>$2\<close>). The third
  class succeeds and leaves the table as it is, and what it returns is the row under its
  column names, a \<open>WineRow\<close>, where \<^verbatim>\<open>getWineById(1, "u1")\<close> returns the record, a \<open>Wine\<close>.
\<close>

theorem updateWine_empty_payload_at_the_code:
  "fst (updateWine_sql_raw 1 empty_payload ''u1'' cellar) = Inl UndefinedParameter \<and>
   fst (updateWine 1 empty_payload ''u1'' cellar) = Inr (Some (raw_row barolo)) \<and>
   wines_table (snd (updateWine 1 empty_payload ''u1'' cellar)) = [barolo, riesling] \<and>
   fst (getWineById 1 ''u1'' cellar) = Inr (Some barolo) \<and>
   row_created_at (raw_row barolo) = createdAt barolo"
proof -
  have raw: "fst (updateWine_sql_raw 1 empty_payload ''u1'' cellar) = Inl UndefinedParameter"
    using updateWine_sql_raw_throws [of 1 empty_payload "''u1''" cellar] cellar_facts(3)
    by simp
  have "updateWine (wine_id barolo) empty_payload (userId barolo) cellar =
        (Inr (Some (raw_row barolo)),
         cellar\<lparr>issued := issued cellar @ [SelectByIdUser (wine_id barolo) (userId barolo)],
           faults := tl (faults cellar)\<rparr>)"
    using updateWine_empty_payload_noop [of cellar barolo] cellar_facts by blast
  then have third: "fst (updateWine 1 empty_payload ''u1'' cellar) = Inr (Some (raw_row barolo))"
    "wines_table (snd (updateWine 1 empty_payload ''u1'' cellar)) = [barolo, riesling]"
    by (simp_all add: cellar_rows)
  have get: "fst (getWineById 1 ''u1'' cellar) = Inr (Some barolo)"
    by (simp add: getWineById_answers [OF cellar_facts(3)] cellar_rows(1) first_row_def)
  have c: "row_created_at (raw_row barolo) = createdAt barolo"
    by (simp add: raw_row_def)
  from raw third get c show ?thesis by blast
qed

subsection \<open>Frame of an update\<close>

text \<open>
  Claim C9. For every call of \<^verbatim>\<open>updateWine\<close> with any partial payload, the id, the
  owner id and the creation timestamp of every stored record are what they were before
  the call, and a row returned by a successful call carries the id, owner id and
  creation timestamp of the stored record it was made from: only the twelve fields of
  \<open>merge\<close> can change.
\<close>

theorem updateWine_frame:
  "map wine_id (wines_table (snd (updateWine i payload uid b))) = map wine_id (wines_table b) \<and>
   map userId (wines_table (snd (updateWine i payload uid b))) = map userId (wines_table b) \<and>
   map createdAt (wines_table (snd (updateWine i payload uid b)))
     = map createdAt (wines_table b) \<and>
   (\<forall>w'. fst (updateWine i payload uid b) = Inr (Some w') \<longrightarrow>
      (\<exists>w\<in>set (wines_table b). w' = raw_row (merge payload w) \<and>
         row_id w' = i \<and> row_user_id w' = uid \<and>
         row_id w' = wine_id w \<and> row_user_id w' = userId w \<and> row_created_at w' = createdAt w))"
proof (cases "answers b")
  case True
  have keep: "wine_id (merge payload w) = wine_id w" "userId (merge payload w) = userId w"
    "createdAt (merge payload w) = createdAt w" for w
    by (simp_all add: merge_def)
  have ret: "\<exists>w\<in>set tbl. w' = raw_row (merge payload w) \<and> row_id w' = i \<and> row_user_id w' = uid \<and>
         row_id w' = wine_id w \<and> row_user_id w' = userId w \<and> row_created_at w' = createdAt w"
    if "map_option raw_row (first_row (map (merge payload) (filter (owned_row i uid) tbl))) = Some w'"
    for tbl w'
  proof -
    from that obtain w rest where f: "filter (owned_row i uid) tbl = w # rest"
      and w': "w' = raw_row (merge payload w)"
      by (auto simp: first_row_def split: list.splits)
    from f have "w \<in> set (filter (owned_row i uid) tbl)" by simp
    then have "w \<in> set tbl" "owned_row i uid w" by auto
    with w' keep show ?thesis by (auto simp: owned_row_def raw_row_def)
  qed
  show ?thesis
    using ret by (simp add: updateWine_answers [OF True] keep o_def cong: if_cong)
next
  case False
  then show ?thesis by (simp add: updateWine_fault)
qed

theorem updateWine_frame_witness:
  "map wine_id (wines_table (snd (updateWine 1 rating_payload ''u1'' cellar))) = [1, 2] \<and>
   map userId (wines_table (snd (updateWine 1 rating_payload ''u1'' cellar))) = [''u1'', ''u2''] \<and>
   map createdAt (wines_table (snd (updateWine 1 rating_payload ''u1'' cellar)))
     = [Some 1700000000000, Some 1700000000500] \<and>
   fst (updateWine 1 rating_payload ''u1'' cellar)
     = Inr (Some (raw_row (barolo\<lparr>rating := Some 5\<rparr>))) \<and>
   row_created_at (raw_row (barolo\<lparr>rating := Some 5\<rparr>)) = createdAt barolo"
proof -
  have t: "map wine_id (wines_table cellar) = [1, 2]"
    "map userId (wines_table cellar) = [''u1'', ''u2'']"
    "map createdAt (wines_table cellar) = [Some 1700000000000, Some 1700000000500]"
    by (simp_all add: cellar_def barolo_def riesling_def)
  have m: "merge rating_payload barolo = barolo\<lparr>rating := Some 5\<rparr>"
    by (simp add: merge_def rating_payload_def empty_payload_def barolo_def)
  have r: "fst (updateWine 1 rating_payload ''u1'' cellar)
     = Inr (Some (raw_row (barolo\<lparr>rating := Some 5\<rparr>)))"
    by (simp add: updateWine_answers [OF cellar_facts(3)] cellar_rows(1) m first_row_def)
  have c: "row_created_at (raw_row (barolo\<lparr>rating := Some 5\<rparr>)) = createdAt barolo"
    by (simp add: raw_row_def)
  note inst = updateWine_frame [of 1 rating_payload "''u1''" cellar]
  from inst t have
    "map wine_id (wines_table (snd (updateWine 1 rating_payload ''u1'' cellar))) = [1, 2]"
    "map userId (wines_table (snd (updateWine 1 rating_payload ''u1'' cellar))) = [''u1'', ''u2'']"
    "map createdAt (wines_table (snd (updateWine 1 rating_payload ''u1'' cellar)))
       = [Some 1700000000000, Some 1700000000500]"
    by simp_all
  with r c show ?thesis by blast
qed

subsection \<open>One statement per update\<close>

text \<open>
  Claim C2. \<^verbatim>\<open>updateWine\<close> performs the merge and the ownership check as one
  conditional statement. Every call sends exactly one statement to the backend, the
  \<^verbatim>\<open>UPDATE ... WHERE id AND user_id\<close> built from the payload (the \<^verbatim>\<open>SELECT\<close> with the same
  condition when the payload is empty), never a \<^verbatim>\<open>DELETE\<close> or an \<^verbatim>\<open>INSERT\<close> and never a
  read followed by a write. When the backend answers, the call succeeds: the rows of the
  given id and owner are merged with the payload, every other row is as before, the
  table and the result are those of that one statement. When the backend throws, the
  call fails and the table is what it was before.
\<close>

theorem updateWine_single_statement:
  "issued (snd (updateWine i payload uid b)) = issued b @ [update_statement i payload uid] \<and>
   (update_statement i payload uid = SelectByIdUser i uid \<or>
    update_statement i payload uid = UpdateByIdUser (set_clause payload) i uid) \<and>
   (answers b \<longrightarrow>
      fst (updateWine i payload uid b)
        = Inr (map_option raw_row
            (first_row (map (merge payload) (filter (owned_row i uid) (wines_table b))))) \<and>
      wines_table (snd (updateWine i payload uid b))
        = map (\<lambda>w. if owned_row i uid w then merge payload w else w) (wines_table b) \<and>
      (\<exists>rows. run (update_statement i payload uid) (wines_table b)
                = Inr (wines_table (snd (updateWine i payload uid b)), rows) \<and>
              fst (updateWine i payload uid b) = Inr (first_row (map raw_row rows)))) \<and>
   (\<not> answers b \<longrightarrow>
      fst (updateWine i payload uid b) = Inl Unavailable \<and>
      wines_table (snd (updateWine i payload uid b)) = wines_table b) \<and>
   (\<forall>e. fst (updateWine i payload uid b) = Inl e \<longrightarrow>
      wines_table (snd (updateWine i payload uid b)) = wines_table b) \<and>
   (\<forall>r. fst (updateWine i payload uid b) = Inr r \<longrightarrow>
      (\<exists>rows. run (update_statement i payload uid) (wines_table b)
                = Inr (wines_table (snd (updateWine i payload uid b)), rows) \<and>
              r = first_row (map raw_row rows)))"
proof (cases "answers b")
  case True
  have id: "merge empty_payload = (\<lambda>w. w)"
    by (rule ext) (rule merge_empty)
  show ?thesis
    by (simp add: updateWine_answers [OF True] update_statement_def assign_all_set_clause_fun
        set_clause_Nil_iff id True first_row_map option.map_ident del: map_map cong: if_cong)
next
  case False
  then show ?thesis by (simp add: updateWine_fault update_statement_def)
qed

theorem updateWine_single_statement_witness:
  "answers cellar \<and>
   fst (updateWine 1 rating_payload ''u1'' cellar)
     = Inr (Some (raw_row (barolo\<lparr>rating := Some 5\<rparr>))) \<and>
   wines_table (snd (updateWine 1 rating_payload ''u1'' cellar))
     = [barolo\<lparr>rating := Some 5\<rparr>, riesling] \<and>
   issued (snd (updateWine 1 rating_payload ''u1'' cellar))
     = [UpdateByIdUser [SetRating (Some 5)] 1 ''u1''] \<and>
   \<not> answers (cellar\<lparr>faults := [True]\<rparr>) \<and>
   fst (updateWine 1 rating_payload ''u1'' (cellar\<lparr>faults := [True]\<rparr>)) = Inl Unavailable \<and>
   wines_table (snd (updateWine 1 rating_payload ''u1'' (cellar\<lparr>faults := [True]\<rparr>)))
     = [barolo, riesling] \<and>
   issued (snd (updateWine 1 rating_payload ''u1'' (cellar\<lparr>faults := [True]\<rparr>)))
     = [UpdateByIdUser [SetRating (Some 5)] 1 ''u1'']"
proof -
  have s: "set_clause rating_payload = [SetRating (Some 5)]"
    by (simp add: set_clause_def set_of_def rating_payload_def empty_payload_def)
  have st: "update_statement 1 rating_payload ''u1'' = UpdateByIdUser [SetRating (Some 5)] 1 ''u1''"
    by (simp add: update_statement_def s)
  have m: "merge rating_payload barolo = barolo\<lparr>rating := Some 5\<rparr>"
    by (simp add: merge_def rating_payload_def empty_payload_def barolo_def)
  have n: "\<not> answers (cellar\<lparr>faults := [True]\<rparr>)" by (simp add: answers_def)
  have c: "wines_table (cellar\<lparr>faults := [True]\<rparr>) = [barolo, riesling]"
    "issued (cellar\<lparr>faults := [True]\<rparr>) = []"
    by (simp_all add: cellar_rows)
  note ok = updateWine_single_statement [of 1 rating_payload "''u1''" cellar]
  note ko = updateWine_single_statement [of 1 rating_payload "''u1''" "cellar\<lparr>faults := [True]\<rparr>"]
  from ok cellar_facts(3) have "fst (updateWine 1 rating_payload ''u1'' cellar)
      = Inr (map_option raw_row (first_row (map (merge rating_payload)
          (filter (owned_row 1 ''u1'') (wines_table cellar)))))"
    by blast
  then have f1: "fst (updateWine 1 rating_payload ''u1'' cellar)
      = Inr (Some (raw_row (barolo\<lparr>rating := Some 5\<rparr>)))"
    by (simp only: cellar_rows(1)) (simp add: first_row_def m)
  from ok cellar_facts(3) have "wines_table (snd (updateWine 1 rating_payload ''u1'' cellar))
      = map (\<lambda>w. if owned_row 1 ''u1'' w then merge rating_payload w else w) (wines_table cellar)"
    by blast
  then have t1: "wines_table (snd (updateWine 1 rating_payload ''u1'' cellar))
      = [barolo\<lparr>rating := Some 5\<rparr>, riesling]"
    by (simp only: cellar_rows(2) m)
  from ok have "issued (snd (updateWine 1 rating_payload ''u1'' cellar))
      = issued cellar @ [update_statement 1 rating_payload ''u1'']"
    by blast
  then have i1: "issued (snd (updateWine 1 rating_payload ''u1'' cellar))
      = [UpdateByIdUser [SetRating (Some 5)] 1 ''u1'']"
    by (simp add: st cellar_rows(4))
  from ko n have f2: "fst (updateWine 1 rating_payload ''u1'' (cellar\<lparr>faults := [True]\<rparr>))
      = Inl Unavailable"
    by blast
  from ko n have "wines_table (snd (updateWine 1 rating_payload ''u1'' (cellar\<lparr>faults := [True]\<rparr>)))
      = wines_table (cellar\<lparr>faults := [True]\<rparr>)"
    by blast
  then have t2: "wines_table (snd (updateWine 1 rating_payload ''u1'' (cellar\<lparr>faults := [True]\<rparr>)))
      = [barolo, riesling]"
    by (simp only: c)
  from ko have "issued (snd (updateWine 1 rating_payload ''u1'' (cellar\<lparr>faults := [True]\<rparr>)))
      = issued (cellar\<lparr>faults := [True]\<rparr>) @ [update_statement 1 rating_payload ''u1'']"
    by blast
  then have i2: "issued (snd (updateWine 1 rating_payload ''u1'' (cellar\<lparr>faults := [True]\<rparr>)))
      = [UpdateByIdUser [SetRating (Some 5)] 1 ''u1'']"
    by (simp only: c st) simp
  from cellar_facts(3) f1 t1 i1 n f2 t2 i2 show ?thesis by blast
qed

text \<open>
  The version that deletes and inserts sends three statements; when the backend throws
  on the third, the record is gone.
\<close>

lemma updateWine_reinsert_fault_loses_record:
  "updateWine_reinsert 1 rating_payload ''u1'' (cellar\<lparr>faults := [False, False, True]\<rparr>) =
     (Inl Unavailable,
      \<lparr>wines_table = [riesling],
       issued = [SelectByIdUser 1 ''u1'', DeleteByIdUser 1 ''u1'',
                 InsertRow (barolo\<lparr>rating := Some 5\<rparr>)],
       faults = []\<rparr>)"
  by (simp add: updateWine_reinsert_def query_text_def execute_def cellar_def Let_def
      owned_row_def first_row_def updatedWineData_def defined_or_def rating_payload_def
      empty_payload_def nullish_def barolo_def riesling_def)

lemma updateWine_reinsert_no_fault:
  "updateWine_reinsert 1 rating_payload ''u1'' cellar =
     (Inr (Some (raw_row (barolo\<lparr>rating := Some 5\<rparr>))),
      \<lparr>wines_table = [riesling, barolo\<lparr>rating := Some 5\<rparr>],
       issued = [SelectByIdUser 1 ''u1'', DeleteByIdUser 1 ''u1'',
                 InsertRow (barolo\<lparr>rating := Some 5\<rparr>)],
       faults = []\<rparr>)"
  by (simp add: updateWine_reinsert_def query_text_def execute_def cellar_def Let_def
      owned_row_def first_row_def updatedWineData_def defined_or_def rating_payload_def
      empty_payload_def nullish_def barolo_def riesling_def)

subsection \<open>Ownership\<close>

text \<open>
  Claim C4. Every operation of the inventory store is scoped by the caller's owner id.
  For every record \<open>r\<close> stored under another owner than the caller: \<^verbatim>\<open>getWineById\<close>
  with the id of \<open>r\<close> returns not-found, \<^verbatim>\<open>updateWine\<close> returns not-found and leaves
  the table as it is, \<^verbatim>\<open>deleteWine\<close> returns false and leaves the table as it is (each
  throws instead when the backend does), and the rows that \<^verbatim>\<open>getWines\<close> and
  \<^verbatim>\<open>getWinesByCategory\<close> return all belong to the caller, so \<open>r\<close> is not among them.
  Whatever id the caller names, \<^verbatim>\<open>updateWine\<close> and \<^verbatim>\<open>deleteWine\<close> leave the rows of every
  other owner as they are.
\<close>

theorem storage_scoped_by_owner:
  assumes "primary_key (wines_table b)" and "r \<in> set (wines_table b)" and "userId r \<noteq> caller"
  shows "fst (getWineById (wine_id r) caller b) = (if answers b then Inr None else Inl Unavailable) \<and>
         wines_table (snd (getWineById (wine_id r) caller b)) = wines_table b \<and>
         fst (updateWine (wine_id r) payload caller b)
           = (if answers b then Inr None else Inl Unavailable) \<and>
         wines_table (snd (updateWine (wine_id r) payload caller b)) = wines_table b \<and>
         fst (deleteWine (wine_id r) caller b)
           = (if answers b then Inr False else Inl Unavailable) \<and>
         wines_table (snd (deleteWine (wine_id r) caller b)) = wines_table b \<and>
         (\<forall>rows. fst (getWines caller b) = Inr rows \<longrightarrow>
            r \<notin> set rows \<and> (\<forall>w\<in>set rows. userId w = caller)) \<and>
         (\<forall>rows. fst (getWinesByCategory c caller b) = Inr rows \<longrightarrow>
            r \<notin> set rows \<and> (\<forall>w\<in>set rows. userId w = caller)) \<and>
         filter (\<lambda>w. userId w \<noteq> caller) (wines_table (snd (updateWine i payload caller b)))
           = filter (\<lambda>w. userId w \<noteq> caller) (wines_table b) \<and>
         filter (\<lambda>w. userId w \<noteq> caller) (wines_table (snd (deleteWine i caller b)))
           = filter (\<lambda>w. userId w \<noteq> caller) (wines_table b)"
proof -
  have none: "filter (owned_row (wine_id r) caller) (wines_table b) = []"
    using assms by (rule foreign_row_not_owned)
  then have keep: "filter (\<lambda>w. \<not> owned_row (wine_id r) caller w) (wines_table b) = wines_table b"
    "map (\<lambda>w. if owned_row (wine_id r) caller w then merge payload w else w) (wines_table b)
       = wines_table b"
    by (simp_all add: filter_empty_conv map_idI)
  have get: "fst (getWineById (wine_id r) caller b) = (if answers b then Inr None else Inl Unavailable) \<and>
         wines_table (snd (getWineById (wine_id r) caller b)) = wines_table b"
    by (simp add: getWineById_answers getWineById_fault none first_row_def)
  have upd: "fst (updateWine (wine_id r) payload caller b)
           = (if answers b then Inr None else Inl Unavailable) \<and>
         wines_table (snd (updateWine (wine_id r) payload caller b)) = wines_table b"
    by (simp add: updateWine_answers updateWine_fault none keep first_row_def)
  have del: "fst (deleteWine (wine_id r) caller b)
           = (if answers b then Inr False else Inl Unavailable) \<and>
         wines_table (snd (deleteWine (wine_id r) caller b)) = wines_table b"
    by (simp add: deleteWine_answers deleteWine_fault none keep)
  have lst: "\<forall>rows. fst (getWines caller b) = Inr rows \<longrightarrow>
            r \<notin> set rows \<and> (\<forall>w\<in>set rows. userId w = caller)"
    using assms(3) by (auto dest!: getWines_rows)
  have cat: "\<forall>rows. fst (getWinesByCategory c caller b) = Inr rows \<longrightarrow>
            r \<notin> set rows \<and> (\<forall>w\<in>set rows. userId w = caller)"
    using assms(3) by (auto dest!: getWinesByCategory_rows)
  note other = other_owners_untouched(1) [of caller i payload b]
    other_owners_untouched(2) [of caller i b]
  from get upd del lst cat other show ?thesis by blast
qed

theorem storage_scoped_by_owner_witness:
  "primary_key (wines_table cellar) \<and> barolo \<in> set (wines_table cellar) \<and>
   userId barolo \<noteq> ''u2'' \<and> wine_id barolo = 1 \<and>
   fst (getWineById 1 ''u2'' cellar) = Inr None \<and>
   fst (updateWine 1 rating_payload ''u2'' cellar) = Inr None \<and>
   wines_table (snd (updateWine 1 rating_payload ''u2'' cellar)) = [barolo, riesling] \<and>
   fst (deleteWine 1 ''u2'' cellar) = Inr False \<and>
   wines_table (snd (deleteWine 1 ''u2'' cellar)) = [barolo, riesling] \<and>
   fst (getWines ''u2'' cellar) = Inr [riesling] \<and>
   fst (getWineById 1 ''u1'' cellar) = Inr (Some barolo)"
proof -
  have u: "userId barolo \<noteq> ''u2''" and i: "wine_id barolo = 1" by (simp_all add: barolo_def)
  have t: "wines_table cellar = [barolo, riesling]" by (simp add: cellar_def)
  have l: "fst (getWines ''u2'' cellar) = Inr [riesling]"
    by (simp add: getWines_def execute_answers [OF cellar_facts(3)] t barolo_def)
      (simp add: riesling_def)
  have g: "fst (getWineById 1 ''u1'' cellar) = Inr (Some barolo)"
    by (simp add: getWineById_answers [OF cellar_facts(3)] t owned_row_def first_row_def
        riesling_def) (simp add: barolo_def)
  show ?thesis
    using storage_scoped_by_owner [OF cellar_facts(1) cellar_facts(2) u,
        where payload = rating_payload and c = "''Red''" and i = 1]
      cellar_facts u i t l g
    by simp
qed



end
